theory Spec2Isabelle
  imports Main "HOL-Library.Word" "HOL-Library.Multiset"
begin

unbundle bit_operations_syntax

section \<open>The archive package: periodic archival to BigQuery\<close>

subsection \<open>Go's \<^verbatim>\<open>time\<close> package, as far as the archiver uses it\<close>

text \<open>
  A \<^verbatim>\<open>time.Time\<close> is an instant; \<^verbatim>\<open>Truncate\<close> works on it "as an absolute duration
  since the zero time" (January 1, year 1, 00:00:00 UTC), so an instant is modelled as
  the number of nanoseconds since Go's zero time. A \<^verbatim>\<open>time.Duration\<close> is an int64 count
  of nanoseconds. The range of \<^verbatim>\<open>Time\<close> itself (int64 seconds) is not modelled.
\<close>

type_synonym time = int
type_synonym duration = int

definition Nanosecond :: duration where "Nanosecond = 1"
definition Second :: duration where "Second = 1000000000 * Nanosecond"
definition Minute :: duration where "Minute = 60 * Second"
definition Hour :: duration where "Hour = 60 * Minute"

text \<open>The Unix epoch (January 1, 1970 UTC) on this scale: 62135596800 seconds after the zero time.\<close>

definition unixEpoch :: time where
  "unixEpoch = 62135596800 * Second"

text \<open>
  \<^verbatim>\<open>func (t Time) Truncate(d Duration) Time\<close>: rounds \<open>t\<close> down to a multiple of \<open>d\<close> since the
  zero time; for \<open>d <= 0\<close> it returns \<open>t\<close> unchanged. The library takes the non-negative
  remainder of the absolute time, which is HOL's \<open>mod\<close> for a positive divisor.
\<close>

definition time_Truncate :: "time \<Rightarrow> duration \<Rightarrow> time" where
  "time_Truncate t d = (if d \<le> 0 then t else t - t mod d)"

definition time_Add :: "time \<Rightarrow> duration \<Rightarrow> time" where
  "time_Add t d = t + d"

text \<open>
  \<^verbatim>\<open>func (t Time) Sub(u Time) Duration\<close>: the difference, saturated at the largest and
  smallest int64 duration.
\<close>

definition maxDuration :: duration where "maxDuration = 2 ^ 63 - 1"
definition minDuration :: duration where "minDuration = - (2 ^ 63)"

definition time_Sub :: "time \<Rightarrow> time \<Rightarrow> duration" where
  "time_Sub t u =
     (let d = t - u in
      if d < minDuration then minDuration
      else if maxDuration < d then maxDuration
      else d)"

subsection \<open>The collaborators of one archival cycle\<close>

text \<open>
  \<^verbatim>\<open>statshub.QueryDims\<close>, \<^verbatim>\<open>NewStatsTable\<close> and \<^verbatim>\<open>StatsTable.WriteStats\<close> are called by
  \<^verbatim>\<open>archiveToBigQuery\<close> and are taken as parameters, with the three readings of
  \<^verbatim>\<open>time.Now()\<close> that one iteration of the loop makes (in \<^verbatim>\<open>archivePeriodically\<close> for the
  next interval, again there for the wait, and in \<^verbatim>\<open>archiveToBigQuery\<close> for the write).
  An \<^verbatim>\<open>error\<close> of a collaborator is its message. The map \<^verbatim>\<open>statsByDim\<close> that
  \<^verbatim>\<open>QueryDims\<close> returns is the list of its entries in the order \<^verbatim>\<open>range\<close> visits them;
  \<open>'ds\<close> is the type of one entry's value (\<^verbatim>\<open>dimStats\<close>), \<open>'tbl\<close> the type of a stats table.
\<close>

record ('tbl, 'ds) archive_env =
  Now1 :: time
  Now2 :: time
  Now3 :: time
  QueryDims :: "string list \<Rightarrow> string + (string \<times> 'ds) list"
  NewStatsTable :: "string \<Rightarrow> string \<Rightarrow> string \<Rightarrow> string + 'tbl"
  WriteStats :: "'tbl \<Rightarrow> 'ds \<Rightarrow> time \<Rightarrow> string option"

definition datasetId :: string where
  "datasetId = ''statshub''"

subsection \<open>\<^verbatim>\<open>archiveToBigQuery\<close>\<close>

text \<open>
  The result is the returned error (\<open>None\<close> for \<^verbatim>\<open>nil\<close>) and the calls of
  \<^verbatim>\<open>WriteStats\<close> made, each with its table, the stats handed over and the timestamp.
  The body of the \<^verbatim>\<open>range\<close> loop returns on every path, so the loop is left in its first
  iteration: \<open>range_statsByDim\<close> has no recursive call.
\<close>

fun range_statsByDim ::
  "('tbl, 'ds) archive_env \<Rightarrow> string \<Rightarrow> duration \<Rightarrow> (string \<times> 'ds) list
     \<Rightarrow> string option \<times> ('tbl \<times> 'ds \<times> time) list" where
  "range_statsByDim env projectId interval [] = (None, [])"
| "range_statsByDim env projectId interval ((dimName, dimStats) # rest) =
     (case NewStatsTable env projectId datasetId dimName of
        Inl err \<Rightarrow> (Some err, [])
      | Inr statsTable \<Rightarrow>
          (let ts = time_Truncate (Now3 env) interval
           in (WriteStats env statsTable dimStats ts, [(statsTable, dimStats, ts)])))"

definition archiveToBigQuery ::
  "('tbl, 'ds) archive_env \<Rightarrow> string \<Rightarrow> string \<Rightarrow> duration
     \<Rightarrow> string option \<times> ('tbl \<times> 'ds \<times> time) list" where
  "archiveToBigQuery env projectId dim interval =
     (case QueryDims env [dim] of
        Inl err \<Rightarrow> (Some err, [])
      | Inr statsByDim \<Rightarrow> range_statsByDim env projectId interval statsByDim)"

subsection \<open>\<^verbatim>\<open>archivePeriodically\<close>: the loop of one dimension\<close>

text \<open>
  What the goroutine of one dimension has done so far: the lines it logged, the
  durations it slept, the arguments of its queries and the writes it made.
\<close>

record ('tbl, 'ds) archiver =
  Log :: "string list"
  Slept :: "duration list"
  Queried :: "string list list"
  Written :: "('tbl \<times> 'ds \<times> time) list"

text \<open>The local variable \<^verbatim>\<open>nextInterval\<close> of the loop body.\<close>

definition nextInterval :: "time \<Rightarrow> duration \<Rightarrow> time" where
  "nextInterval now interval = time_Add (time_Truncate now interval) interval"

text \<open>One iteration of the \<^verbatim>\<open>for\<close> loop.\<close>

definition archiveCycle ::
  "('tbl, 'ds) archive_env \<Rightarrow> string \<Rightarrow> string \<Rightarrow> duration
     \<Rightarrow> ('tbl, 'ds) archiver \<Rightarrow> ('tbl, 'ds) archiver" where
  "archiveCycle env projectId dim interval st =
     (let waitTime = time_Sub (nextInterval (Now1 env) interval) (Now2 env);
          st1 = st\<lparr>Slept := Slept st @ [waitTime]\<rparr>;
          r = archiveToBigQuery env projectId dim interval;
          st2 = st1\<lparr>Queried := Queried st1 @ [[dim]], Written := Written st1 @ snd r\<rparr>
      in case fst r of
           None \<Rightarrow> st2
         | Some err \<Rightarrow>
             st2\<lparr>Log := Log st2 @
               [''Unable to archive dimension '' @ dim @ '' to BigQuery: '' @ err]\<rparr>)"

text \<open>
  The loop \<^verbatim>\<open>for { ... }\<close>, run for a number of iterations (the fuel). Iteration \<open>n\<close>
  meets the collaborators \<open>envs n\<close>. The outcome \<open>Running st\<close> says that the iterations
  were all made, that they left the state \<open>st\<close>, and that the loop goes on from there;
  \<open>Returned st\<close> would say that the function of the goroutine returned in the state
  \<open>st\<close>. The body of the loop has no \<^verbatim>\<open>break\<close> and no \<^verbatim>\<open>return\<close>, so each iteration is
  followed by the next one.
\<close>

datatype 'a outcome = Running 'a | Returned 'a

fun archive_loop ::
  "nat \<Rightarrow> string \<Rightarrow> string \<Rightarrow> duration \<Rightarrow> (nat \<Rightarrow> ('tbl, 'ds) archive_env) \<Rightarrow> nat
     \<Rightarrow> ('tbl, 'ds) archiver \<Rightarrow> ('tbl, 'ds) archiver outcome" where
  "archive_loop 0 projectId dim interval envs n st = Running st"
| "archive_loop (Suc fuel) projectId dim interval envs n st =
     archive_loop fuel projectId dim interval envs (Suc n)
       (archiveCycle (envs n) projectId dim interval st)"

subsection \<open>\<^verbatim>\<open>Start\<close>\<close>

text \<open>
  \<^verbatim>\<open>archivePeriodically(dim, interval)\<close> starts one goroutine that runs the loop above for
  its dimension and returns at once. \<^verbatim>\<open>Start\<close> is modelled by what it logs and the
  goroutines it starts; \<open>projectId\<close> is the package variable read from the environment
  variable \<^verbatim>\<open>GOOGLE_PROJECT\<close> (empty when unset).
\<close>

datatype goroutine = ArchiveLoop string duration

definition archivePeriodically :: "string \<Rightarrow> duration \<Rightarrow> goroutine" where
  "archivePeriodically dim interval = ArchiveLoop dim interval"

definition Start :: "string \<Rightarrow> string list \<times> goroutine list" where
  "Start projectId =
     (if projectId = ''''
      then ([''No GOOGLE_PROJECT environment variable set, not archiving to BigQuery''], [])
      else ([''Archiving to BigQuery at '' @ projectId],
            [archivePeriodically ''fallback'' (10 * Minute),
             archivePeriodically ''country'' (1 * Hour),
             archivePeriodically ''user'' (24 * Hour)]))"

section \<open>The statshub package: the stats endpoint\<close>

subsection \<open>Library functions: \<^verbatim>\<open>strings.LastIndex\<close>, \<^verbatim>\<open>strconv.Atoi\<close>, \<^verbatim>\<open>%d\<close>\<close>

text \<open>
  A Go string is a sequence of bytes, as \<open>string\<close> is here. \<^verbatim>\<open>strings.LastIndex(s, "/")\<close>
  is the index of the last \<^verbatim>\<open>/\<close> in \<open>s\<close>, or \<open>-1\<close>; it is written for a one-byte separator.
\<close>

primrec last_index_from :: "nat \<Rightarrow> char \<Rightarrow> string \<Rightarrow> int \<Rightarrow> int" where
  "last_index_from i c [] found = found"
| "last_index_from i c (x # xs) found =
     last_index_from (Suc i) c xs (if x = c then int i else found)"

definition LastIndex :: "string \<Rightarrow> char \<Rightarrow> int" where
  "LastIndex s c = last_index_from 0 c s (-1)"

text \<open>
  \<^verbatim>\<open>strconv.Atoi(s)\<close> is \<^verbatim>\<open>ParseInt(s, 10, 0)\<close>: an optional sign, then one or more decimal
  digits, and the value must fit \<^verbatim>\<open>int\<close>, taken as 64 bits wide. A failure is a
  \<^verbatim>\<open>*NumError\<close> with the function's name and the input (whether it is a syntax or a range
  error is not told apart here).
\<close>

datatype NumError = NumError string string

definition isDigit :: "char \<Rightarrow> bool" where
  "isDigit c = (c \<in> set ''0123456789'')"

definition digitVal :: "char \<Rightarrow> nat" where
  "digitVal c = of_char c - 48"

definition parseDigits :: "string \<Rightarrow> nat" where
  "parseDigits ds = foldl (\<lambda>n c. n * 10 + digitVal c) 0 ds"

definition Atoi :: "string \<Rightarrow> NumError + int" where
  "Atoi s =
     (let neg = (case s of [] \<Rightarrow> False | c # cs \<Rightarrow> c = CHR ''-'');
          ds = (case s of [] \<Rightarrow> [] | c # cs \<Rightarrow> if c = CHR ''-'' \<or> c = CHR ''+'' then cs else s)
      in if ds = [] \<or> \<not> list_all isDigit ds then Inl (NumError ''Atoi'' s)
         else (let n = (if neg then - int (parseDigits ds) else int (parseDigits ds))
               in if n < - (2 ^ 63) \<or> 2 ^ 63 \<le> n then Inl (NumError ''Atoi'' s) else Inr n))"

text \<open>The verb \<^verbatim>\<open>%d\<close> of \<^verbatim>\<open>fmt.Sprintf\<close> on an integer: its decimal form, with \<^verbatim>\<open>-\<close> when negative.\<close>

definition digitChar :: "nat \<Rightarrow> char" where
  "digitChar d = ''0123456789'' ! d"

fun decimal :: "nat \<Rightarrow> string" where
  "decimal n = (if n < 10 then [digitChar n] else decimal (n div 10) @ [digitChar (n mod 10)])"

declare decimal.simps [simp del]

definition Sprintf_d :: "int \<Rightarrow> string" where
  "Sprintf_d n = (if n < 0 then CHR ''-'' # decimal (nat (- n)) else decimal (nat n))"

subsection \<open>Library functions: \<^verbatim>\<open>crypto/sha256\<close> and \<^verbatim>\<open>encoding/hex\<close>\<close>

text \<open>SHA-256 as FIPS 180-4 defines it, on 32-bit words.\<close>

type_synonym u32 = "32 word"
type_synonym byte = "8 word"
type_synonym sha_state = "u32 \<times> u32 \<times> u32 \<times> u32 \<times> u32 \<times> u32 \<times> u32 \<times> u32"

definition K256 :: "u32 list" where
  "K256 =
     [0x428a2f98, 0x71374491, 0xb5c0fbcf, 0xe9b5dba5] @
     [0x3956c25b, 0x59f111f1, 0x923f82a4, 0xab1c5ed5] @
     [0xd807aa98, 0x12835b01, 0x243185be, 0x550c7dc3] @
     [0x72be5d74, 0x80deb1fe, 0x9bdc06a7, 0xc19bf174] @
     [0xe49b69c1, 0xefbe4786, 0x0fc19dc6, 0x240ca1cc] @
     [0x2de92c6f, 0x4a7484aa, 0x5cb0a9dc, 0x76f988da] @
     [0x983e5152, 0xa831c66d, 0xb00327c8, 0xbf597fc7] @
     [0xc6e00bf3, 0xd5a79147, 0x06ca6351, 0x14292967] @
     [0x27b70a85, 0x2e1b2138, 0x4d2c6dfc, 0x53380d13] @
     [0x650a7354, 0x766a0abb, 0x81c2c92e, 0x92722c85] @
     [0xa2bfe8a1, 0xa81a664b, 0xc24b8b70, 0xc76c51a3] @
     [0xd192e819, 0xd6990624, 0xf40e3585, 0x106aa070] @
     [0x19a4c116, 0x1e376c08, 0x2748774c, 0x34b0bcb5] @
     [0x391c0cb3, 0x4ed8aa4a, 0x5b9cca4f, 0x682e6ff3] @
     [0x748f82ee, 0x78a5636f, 0x84c87814, 0x8cc70208] @
     [0x90befffa, 0xa4506ceb, 0xbef9a3f7, 0xc67178f2]"

definition init256 :: sha_state where
  "init256 = (0x6a09e667, 0xbb67ae85, 0x3c6ef372, 0xa54ff53a,
              0x510e527f, 0x9b05688c, 0x1f83d9ab, 0x5be0cd19)"

definition rotr :: "nat \<Rightarrow> u32 \<Rightarrow> u32" where
  "rotr n x = drop_bit n x OR push_bit (32 - n) x"

definition Ch :: "u32 \<Rightarrow> u32 \<Rightarrow> u32 \<Rightarrow> u32" where
  "Ch x y z = (x AND y) XOR (NOT x AND z)"

definition Maj :: "u32 \<Rightarrow> u32 \<Rightarrow> u32 \<Rightarrow> u32" where
  "Maj x y z = (x AND y) XOR (x AND z) XOR (y AND z)"

definition bsig0 :: "u32 \<Rightarrow> u32" where
  "bsig0 x = rotr 2 x XOR rotr 13 x XOR rotr 22 x"

definition bsig1 :: "u32 \<Rightarrow> u32" where
  "bsig1 x = rotr 6 x XOR rotr 11 x XOR rotr 25 x"

definition ssig0 :: "u32 \<Rightarrow> u32" where
  "ssig0 x = rotr 7 x XOR rotr 18 x XOR drop_bit 3 x"

definition ssig1 :: "u32 \<Rightarrow> u32" where
  "ssig1 x = rotr 17 x XOR rotr 19 x XOR drop_bit 10 x"

text \<open>The message schedule; \<open>ws\<close> holds the words computed so far, the latest first.\<close>

fun schedule :: "nat \<Rightarrow> u32 list \<Rightarrow> u32 list" where
  "schedule 0 ws = ws"
| "schedule (Suc n) ws =
     schedule n ((ssig1 (ws ! 1) + ws ! 6 + ssig0 (ws ! 14) + ws ! 15) # ws)"

definition round256 :: "sha_state \<Rightarrow> u32 \<times> u32 \<Rightarrow> sha_state" where
  "round256 s kw =
     (case s of (a, b, c, d, e, f, g, h) \<Rightarrow>
        (let t1 = h + bsig1 e + Ch e f g + fst kw + snd kw;
             t2 = bsig0 a + Maj a b c
         in (t1 + t2, a, b, c, d + t1, e, f, g)))"

definition add_state :: "sha_state \<Rightarrow> sha_state \<Rightarrow> sha_state" where
  "add_state s t =
     (case s of (a, b, c, d, e, f, g, h) \<Rightarrow>
      case t of (a', b', c', d', e', f', g', h') \<Rightarrow>
        (a + a', b + b', c + c', d + d', e + e', f + f', g + g', h + h'))"

definition be32 :: "byte list \<Rightarrow> u32" where
  "be32 bs = foldl (\<lambda>acc b. push_bit 8 acc OR ucast b) 0 bs"

fun chunks :: "nat \<Rightarrow> 'a list \<Rightarrow> 'a list list" where
  "chunks n [] = []"
| "chunks n xs = (if n = 0 then [xs] else take n xs # chunks n (drop n xs))"

definition block :: "sha_state \<Rightarrow> byte list \<Rightarrow> sha_state" where
  "block hs bs =
     (let w16 = map be32 (chunks 4 bs);
          ws = rev (schedule 48 (rev w16))
      in add_state hs (foldl round256 hs (zip K256 ws)))"

definition pad :: "byte list \<Rightarrow> byte list" where
  "pad m = m @ [0x80] @ replicate ((119 - length m mod 64) mod 64) 0 @
     map (\<lambda>i. ucast (drop_bit (8 * i) (word_of_nat (8 * length m) :: 64 word))) (rev [0..<8])"

definition Sum256 :: "byte list \<Rightarrow> byte list" where
  "Sum256 m =
     concat (map (\<lambda>w. map (\<lambda>i. ucast (drop_bit (8 * i) w)) (rev [0..<4]))
       (case foldl block init256 (chunks 64 (pad m)) of
          (a, b, c, d, e, f, g, h) \<Rightarrow> [a, b, c, d, e, f, g, h]))"

text \<open>\<^verbatim>\<open>[]byte(s)\<close> and \<^verbatim>\<open>hex.EncodeToString\<close> (lower-case digits).\<close>

definition bytes_of :: "string \<Rightarrow> byte list" where
  "bytes_of s = map (\<lambda>c. of_char c) s"

definition hexdigit :: "nat \<Rightarrow> char" where
  "hexdigit n = ''0123456789abcdef'' ! n"

definition EncodeToString :: "byte list \<Rightarrow> string" where
  "EncodeToString bs =
     concat (map (\<lambda>b. [hexdigit (unat b div 16), hexdigit (unat b mod 16)]) bs)"

subsection \<open>The types of \<^verbatim>\<open>statshub.go\<close>\<close>

text \<open>
  \<^verbatim>\<open>UserInfo\<close>, \<^verbatim>\<open>Stats\<close> and \<^verbatim>\<open>Response\<close> are the structs of the source; an \<^verbatim>\<open>int64\<close>
  stat value is a 64-bit word, the \<^verbatim>\<open>UserId\<close> an integer (the one \<^verbatim>\<open>Atoi\<close> returned).
  The errors the handler makes with \<^verbatim>\<open>fmt.Errorf\<close> are the constructors of \<open>error\<close>,
  each standing for its message and carrying the message's arguments:
  \<^item> \<open>MissingUserId\<close>: "Request URL is missing user id"
  \<^item> \<open>BadUserId\<close>: "Unable to convert userId %s to int: %s"
  \<^item> \<open>NoHash\<close>: "No hash provided in querystring"
  \<^item> \<open>WrongNumberOfHashes\<close>: "Wrong number of hashes provided in querystring"
  \<^item> \<open>NotAuthenticated\<close>: "Not authenticated: %s"
  \<^item> \<open>HashMismatch\<close>: "Hash mismatch, authentication failure"
  \<^item> \<open>UnableToDecode\<close>: "Unable to decode request: %s"
  \<^item> \<open>UnableToPost\<close>: "Unable to post stats: %s"
  \<^item> \<open>UnableToConnect\<close>: "Unable to connect to redis: %s"
  \<^item> \<open>UnableToQuery\<close>: "Unable to query stats: %s"

  The field \<open>Error\<close> of a \<open>Response\<close> is the error whose message the source stores
  there (\<open>None\<close> for the empty string).
\<close>

type_synonym int64 = "64 word"

record UserInfo =
  UserId :: int
  Hash :: string

record Stats =
  Counter :: "string \<rightharpoonup> int64"
  Gauge :: "string \<rightharpoonup> int64"
  Presence :: "string \<rightharpoonup> int64"

datatype error =
    MissingUserId
  | BadUserId string NumError
  | NoHash
  | WrongNumberOfHashes
  | NotAuthenticated string
  | HashMismatch
  | UnableToDecode string
  | UnableToPost string
  | UnableToConnect string
  | UnableToQuery string

record Response =
  Succeeded :: bool
  Error :: "error option"

definition newStats :: Stats where
  "newStats = \<lparr>Counter = Map.empty, Gauge = Map.empty, Presence = Map.empty\<rparr>"

subsection \<open>The request, the response writer and the collaborators\<close>

text \<open>
  Of a \<^verbatim>\<open>*http.Request\<close> the handler reads the method, \<^verbatim>\<open>URL.Path\<close>, the parsed query
  \<^verbatim>\<open>URL.Query()\<close> (a map from a key to the list of its values) and the body.
\<close>

record request =
  Method :: string
  URL_Path :: string
  URL_Query :: "string \<rightharpoonup> string list"
  Body :: string

text \<open>The App Engine user that \<^verbatim>\<open>user.CurrentOAuth\<close> returns; only its email is read.\<close>

record User =
  Email :: string

text \<open>What is handed to \<^verbatim>\<open>write\<close> as \<^verbatim>\<open>data\<close>: a \<^verbatim>\<open>Response\<close>, or the result of a query.\<close>

datatype 'q payload = ResponseData Response | QueryData 'q

datatype log_entry =
    ExpectedHash string
  | QueryLog "string \<rightharpoonup> string list"
  | UnableToRespond string

text \<open>
  The collaborators of the handler, as parameters: the identity provider, the JSON
  decoder of the body (into a \<^verbatim>\<open>StatsSubmission\<close>, the type \<open>'sub\<close>), the store
  (\<^verbatim>\<open>postToRedis\<close>, which returns its error and the store it leaves; \<^verbatim>\<open>connectToRedis\<close> and
  \<^verbatim>\<open>query\<close>, which read it) and \<^verbatim>\<open>json.Marshal\<close>. An \<^verbatim>\<open>error\<close> of a collaborator is its
  message.
\<close>

record ('sub, 'store, 'conn, 'q) backend =
  CurrentOAuth :: "request \<Rightarrow> string + User"
  Decode :: "string \<Rightarrow> string + 'sub"
  postToRedis :: "'sub \<Rightarrow> int \<Rightarrow> 'store \<Rightarrow> string option \<times> 'store"
  connectToRedis :: "'store \<Rightarrow> string + 'conn"
  query :: "'conn \<Rightarrow> int \<Rightarrow> 'store \<Rightarrow> string + 'q"
  Marshal :: "'q payload \<Rightarrow> string + string"

text \<open>
  The state a request is handled in: the \<^verbatim>\<open>http.ResponseWriter\<close> (its header map, the
  status code once \<^verbatim>\<open>WriteHeader\<close> was called, the bytes written), the store and the log.
\<close>

record 'store handling =
  Header :: "string \<rightharpoonup> string"
  Status :: "int option"
  Written_body :: string
  Store :: 'store
  Logged :: "log_entry list"

definition new_handling :: "'store \<Rightarrow> 'store handling" where
  "new_handling store =
     \<lparr>Header = Map.empty, Status = None, Written_body = [], Store = store, Logged = []\<rparr>"

text \<open>\<^verbatim>\<open>w.WriteHeader(code)\<close>: the first call sets the status, a later one is ignored.\<close>

definition WriteHeader :: "'store handling \<Rightarrow> int \<Rightarrow> 'store handling" where
  "WriteHeader w code = (case Status w of None \<Rightarrow> w\<lparr>Status := Some code\<rparr> | Some c \<Rightarrow> w)"

subsection \<open>\<^verbatim>\<open>write\<close> and \<^verbatim>\<open>fail\<close>\<close>

definition write_data ::
  "('sub, 'store, 'conn, 'q) backend \<Rightarrow> 'store handling \<Rightarrow> int \<Rightarrow> 'q payload \<Rightarrow> 'store handling" where
  "write_data be w statusCode data =
     (let w1 = WriteHeader w statusCode
      in case Marshal be data of
           Inr bytes \<Rightarrow> w1\<lparr>Written_body := Written_body w1 @ bytes\<rparr>
         | Inl err \<Rightarrow> w1\<lparr>Logged := Logged w1 @ [UnableToRespond err]\<rparr>)"

definition fail ::
  "('sub, 'store, 'conn, 'q) backend \<Rightarrow> 'store handling \<Rightarrow> int \<Rightarrow> error \<Rightarrow> 'store handling" where
  "fail be w statusCode err =
     write_data be w statusCode (ResponseData \<lparr>Succeeded = False, Error = Some err\<rparr>)"

subsection \<open>\<^verbatim>\<open>getUserInfo\<close>\<close>

definition getUserInfo :: "request \<Rightarrow> error + UserInfo" where
  "getUserInfo r =
     (let lastSlash = LastIndex (URL_Path r) (CHR ''/'')
      in if lastSlash = 0 then Inl MissingUserId
         else (let userIdString = drop (nat (lastSlash + 1)) (URL_Path r)
               in case Atoi userIdString of
                    Inl err \<Rightarrow> Inl (BadUserId userIdString err)
                  | Inr userIdInt \<Rightarrow>
                      (case URL_Query r ''hash'' of
                         None \<Rightarrow> Inl NoHash
                       | Some hashes \<Rightarrow>
                           if length hashes \<noteq> 1 then Inl WrongNumberOfHashes
                           else Inr \<lparr>UserId = userIdInt, Hash = hashes ! 0\<rparr>)))"

subsection \<open>\<^verbatim>\<open>authenticateAgainst\<close>\<close>

text \<open>
  The result is the status code, the error (\<open>None\<close> for \<^verbatim>\<open>nil\<close>) and what was logged. On
  success the named results are returned as they are: status code 0 and no error.
\<close>

definition authenticateAgainst ::
  "('sub, 'store, 'conn, 'q) backend \<Rightarrow> UserInfo \<Rightarrow> request
     \<Rightarrow> int \<times> error option \<times> log_entry list" where
  "authenticateAgainst be userInfo r =
     (case CurrentOAuth be r of
        Inl err \<Rightarrow> (401, Some (NotAuthenticated err), [])
      | Inr currentUser \<Rightarrow>
          (let hashInput = Email currentUser @ Sprintf_d (UserId userInfo);
               expectedHash = EncodeToString (Sum256 (bytes_of hashInput))
           in if expectedHash \<noteq> Hash userInfo
              then (403, Some HashMismatch, [ExpectedHash expectedHash])
              else (0, None, [ExpectedHash expectedHash])))"

subsection \<open>\<^verbatim>\<open>postStats\<close> and \<^verbatim>\<open>getStats\<close>\<close>

text \<open>
  Each returns a status code with either an error or the response to write, and
  \<^verbatim>\<open>postStats\<close> the store as \<^verbatim>\<open>postToRedis\<close> left it.
\<close>

definition postStats ::
  "('sub, 'store, 'conn, 'q) backend \<Rightarrow> request \<Rightarrow> UserInfo \<Rightarrow> 'store
     \<Rightarrow> (int \<times> (error + 'q payload)) \<times> 'store" where
  "postStats be r userInfo store =
     (case Decode be (Body r) of
        Inl err \<Rightarrow> ((400, Inl (UnableToDecode err)), store)
      | Inr stats \<Rightarrow>
          (case postToRedis be stats (UserId userInfo) store of
             (Some err, store') \<Rightarrow> ((500, Inl (UnableToPost err)), store')
           | (None, store') \<Rightarrow>
               ((200, Inr (ResponseData \<lparr>Succeeded = True, Error = None\<rparr>)), store')))"

definition getStats ::
  "('sub, 'store, 'conn, 'q) backend \<Rightarrow> request \<Rightarrow> UserInfo \<Rightarrow> 'store
     \<Rightarrow> int \<times> (error + 'q payload)" where
  "getStats be r userInfo store =
     (case connectToRedis be store of
        Inl err \<Rightarrow> (500, Inl (UnableToConnect err))
      | Inr conn \<Rightarrow>
          (case query be conn (UserId userInfo) store of
             Inl err \<Rightarrow> (500, Inl (UnableToQuery err))
           | Inr resp \<Rightarrow> (200, Inr (QueryData resp))))"

subsection \<open>\<^verbatim>\<open>statsHandler\<close>\<close>

definition statsHandler ::
  "('sub, 'store, 'conn, 'q) backend \<Rightarrow> request \<Rightarrow> 'store handling \<Rightarrow> 'store handling" where
  "statsHandler be r w =
     (case getUserInfo r of
        Inl err \<Rightarrow> fail be w 400 err
      | Inr userInfo \<Rightarrow>
          (case authenticateAgainst be userInfo r of
             (statusCode, auth_err, logged) \<Rightarrow>
               (let w1 = w\<lparr>Logged := Logged w @ logged\<rparr>
                in case auth_err of
                     Some err \<Rightarrow> fail be w1 statusCode err
                   | None \<Rightarrow>
                       if ''POST'' = Method r then
                         (let w2 = w1\<lparr>Header := (Header w1)(''Content-Type'' \<mapsto> ''application/json'')\<rparr>
                          in case postStats be r userInfo (Store w2) of
                               ((statusCode, Inl err), store') \<Rightarrow>
                                 fail be (w2\<lparr>Store := store'\<rparr>) statusCode err
                             | ((statusCode, Inr resp), store') \<Rightarrow>
                                 write_data be (w2\<lparr>Store := store'\<rparr>) 200 resp)
                       else if ''GET'' = Method r then
                         (let w2 = w1\<lparr>Header := (Header w1)(''Content-Type'' \<mapsto> ''application/json'')\<rparr>
                          in case getStats be r userInfo (Store w2) of
                               (statusCode, Inl err) \<Rightarrow> fail be w2 statusCode err
                             | (statusCode, Inr resp) \<Rightarrow> write_data be w2 200 resp)
                       else
                         WriteHeader (w1\<lparr>Logged := Logged w1 @ [QueryLog (URL_Query r)]\<rparr>) 405)))"

subsection \<open>Malformed requests\<close>

text \<open>
  The conditions under which \<^verbatim>\<open>getUserInfo\<close> returns an error, named for the statements
  below: \<open>userIdString\<close> is the segment of the path after its last slash (the local
  variable of that name); a request is malformed when the last slash is the first byte
  of the path (the user id is missing), when \<^verbatim>\<open>Atoi\<close> rejects the segment, or when the
  query has no \<^verbatim>\<open>hash\<close> or not exactly one.
\<close>

definition userIdString :: "request \<Rightarrow> string" where
  "userIdString r = drop (nat (LastIndex (URL_Path r) (CHR ''/'') + 1)) (URL_Path r)"

definition malformed :: "request \<Rightarrow> bool" where
  "malformed r =
     (LastIndex (URL_Path r) (CHR ''/'') = 0 \<or> isl (Atoi (userIdString r)) \<or>
      (case URL_Query r ''hash'' of None \<Rightarrow> True | Some hashes \<Rightarrow> length hashes \<noteq> 1))"

subsection \<open>The proof of identity, as the spec words it\<close>

text \<open>
  The spec's data model: the \<^verbatim>\<open>AuthProof\<close> is "a hex-encoded cryptographic digest
  supplied by the client, computed as \<^verbatim>\<open>hash(realIdentity || AnonymizedUserId)\<close>"; the
  package comment of \<^verbatim>\<open>statshub.go\<close> names the digest: "a sha-256 hash of the real userid +
  anonymized userid". This is the value \<^verbatim>\<open>authenticateAgainst\<close> is compared with below.
\<close>

definition AuthProof :: "string \<Rightarrow> int \<Rightarrow> string" where
  "AuthProof realIdentity anonymizedUserId =
     EncodeToString (Sum256 (bytes_of (realIdentity @ Sprintf_d anonymizedUserId)))"

section \<open>The Submission Processor\<close>

text \<open>
  Modelled from the spec: \<^verbatim>\<open>postToRedis\<close> and the store behind it are not in the sources
  at hand (\<^verbatim>\<open>statshub.go\<close> only calls \<^verbatim>\<open>stats.postToRedis(userInfo.UserId)\<close>). The spec
  (section 4.2): the target is the dimension \<^verbatim>\<open>user\<close>, the entity key the string form of
  the user id; the operation is a read-modify-write of that entry: "for each stat name
  in counter, add to existing value (existing default 0); for gauge and presence,
  overwrite". The Aggregation Store maps (dimension, entity) to a stats bundle, and
  an entity is created by its first submission. Values are \<^verbatim>\<open>int64\<close>, as in \<^verbatim>\<open>Stats\<close>, so
  the addition is that of 64-bit words.
\<close>

type_synonym aggregation_store = "string \<times> string \<rightharpoonup> Stats"

text \<open>Modelled from the spec: a counter is added to the existing value, 0 when there is none.\<close>

definition merge_counter :: "(string \<rightharpoonup> int64) \<Rightarrow> (string \<rightharpoonup> int64) \<Rightarrow> (string \<rightharpoonup> int64)" where
  "merge_counter existing submitted =
     (\<lambda>name. case submitted name of
        None \<Rightarrow> existing name
      | Some v \<Rightarrow> Some ((case existing name of None \<Rightarrow> 0 | Some x \<Rightarrow> x) + v))"

text \<open>Modelled from the spec: counters are added, gauges and presence are overwritten.\<close>

definition merge_Stats :: "Stats \<Rightarrow> Stats \<Rightarrow> Stats" where
  "merge_Stats existing submitted =
     \<lparr>Counter = merge_counter (Counter existing) (Counter submitted),
      Gauge = Gauge existing ++ Gauge submitted,
      Presence = Presence existing ++ Presence submitted\<rparr>"

text \<open>
  Modelled from the spec: the read-modify-write of the entry of the dimension \<^verbatim>\<open>user\<close>
  whose entity is the string form of the user id; a missing entry is read as the empty
  bundle.
\<close>

definition submit :: "aggregation_store \<Rightarrow> int \<Rightarrow> Stats \<Rightarrow> aggregation_store" where
  "submit store userId stats =
     (let key = (''user'', Sprintf_d userId);
          existing = (case store key of None \<Rightarrow> newStats | Some s \<Rightarrow> s)
      in store(key \<mapsto> merge_Stats existing stats))"

text \<open>A sequence of submissions for one user, processed in order.\<close>

fun submit_all :: "aggregation_store \<Rightarrow> int \<Rightarrow> Stats list \<Rightarrow> aggregation_store" where
  "submit_all store userId [] = store"
| "submit_all store userId (stats # rest) = submit_all (submit store userId stats) userId rest"

text \<open>
  The counter stored for a user under a stat name (\<open>None\<close> while there is none), and
  the values a sequence of submissions carries for a stat name.
\<close>

definition stored_counter :: "aggregation_store \<Rightarrow> int \<Rightarrow> string \<Rightarrow> int64 option" where
  "stored_counter store userId name =
     (case store (''user'', Sprintf_d userId) of None \<Rightarrow> None | Some s \<Rightarrow> Counter s name)"

definition submitted_values :: "string \<Rightarrow> Stats list \<Rightarrow> int64 list" where
  "submitted_values name subs = List.map_filter (\<lambda>s. Counter s name) subs"

section \<open>Example runs\<close>

text \<open>
  An archival cycle of the dimension \<^verbatim>\<open>fallback\<close>: the scheduling decision is taken at
  12:34:56 UTC on June 1, 2014, the goroutine wakes at 12:40:00 and writes a quarter of
  a second later; the store holds two entities.
\<close>

definition ex_sched :: time where
  "ex_sched = unixEpoch + 1401626096 * Second"

definition ex_fire :: time where
  "ex_fire = unixEpoch + 1401626400 * Second + 250000000 * Nanosecond"

definition ex_dimStats :: "(string \<times> Stats) list" where
  "ex_dimStats =
     [(''42'', newStats\<lparr>Counter := [''clicks'' \<mapsto> 5]\<rparr>),
      (''43'', newStats\<lparr>Gauge := [''battery'' \<mapsto> 60]\<rparr>)]"

definition ex_env :: "(string, (string \<times> Stats) list) archive_env" where
  "ex_env =
     \<lparr>Now1 = ex_sched, Now2 = ex_sched + 1000 * Nanosecond, Now3 = ex_fire,
      QueryDims = (\<lambda>dims. Inr (map (\<lambda>d. (d, ex_dimStats)) dims)),
      NewStatsTable = (\<lambda>project dataset name. Inr (project @ ''.'' @ dataset @ ''.'' @ name)),
      WriteStats = (\<lambda>table stats ts. None)\<rparr>"

definition ex_env_down :: "(string, (string \<times> Stats) list) archive_env" where
  "ex_env_down = ex_env\<lparr>QueryDims := (\<lambda>dims. Inl ''connection refused'')\<rparr>"

definition ex_env_write_fails :: "(string, (string \<times> Stats) list) archive_env" where
  "ex_env_write_fails = ex_env\<lparr>WriteStats := (\<lambda>table stats ts. Some ''quota exceeded'')\<rparr>"

definition ex_envs :: "nat \<Rightarrow> (string, (string \<times> Stats) list) archive_env" where
  "ex_envs n = (if n = 0 then ex_env_down else if n = 1 then ex_env_write_fails else ex_env)"

definition ex_archiver :: "(string, (string \<times> Stats) list) archiver" where
  "ex_archiver = \<lparr>Log = [], Slept = [], Queried = [], Written = []\<rparr>"

text \<open>The entities whose stats a list of \<^verbatim>\<open>WriteStats\<close> calls was handed.\<close>

definition written_entities :: "('tbl \<times> (string \<times> 'v) list \<times> time) list \<Rightarrow> string list" where
  "written_entities ws = concat (map (\<lambda>w. map fst (fst (snd w))) ws)"

text \<open>
  The request of the package comment of \<^verbatim>\<open>statshub.go\<close>, sent with \<^verbatim>\<open>curl\<close> to a local
  development server, whose OAuth user is \<^verbatim>\<open>example@example.com\<close>: user id 523523 with
  the hash printed there. The store is the Submission Processor of the spec.
\<close>

definition ex_hash :: string where
  "ex_hash = ''c78c666ec1016b8ed66b40bb46e0883020ff7c9d2f2010c0e2dbfbfc358888a2''"

definition ex_request :: request where
  "ex_request =
     \<lparr>Method = ''POST'', URL_Path = ''/stats/523523'',
      URL_Query = [''hash'' \<mapsto> [ex_hash]], Body = ''{}''\<rparr>"

definition ex_backend :: "(Stats, aggregation_store, unit, Stats) backend" where
  "ex_backend =
     \<lparr>CurrentOAuth = (\<lambda>r. Inr \<lparr>Email = ''example@example.com''\<rparr>),
      Decode = (\<lambda>body. if body = ''{}'' then Inr newStats else Inl ''unexpected end of JSON input''),
      postToRedis = (\<lambda>stats userId store. (None, submit store userId stats)),
      connectToRedis = (\<lambda>store. Inr ()),
      query = (\<lambda>conn userId store.
        Inr (case store (''user'', Sprintf_d userId) of None \<Rightarrow> newStats | Some s \<Rightarrow> s)),
      Marshal = (\<lambda>data. Inr (case data of
         ResponseData resp \<Rightarrow> (if Succeeded resp then ''succeeded'' else ''failed'')
       | QueryData stats \<Rightarrow> ''stats''))\<rparr>"

definition ex_backend_anonymous :: "(Stats, aggregation_store, unit, Stats) backend" where
  "ex_backend_anonymous = ex_backend\<lparr>CurrentOAuth := (\<lambda>r. Inl ''no OAuth token'')\<rparr>"

definition ex_backend_store_down :: "(Stats, aggregation_store, unit, Stats) backend" where
  "ex_backend_store_down =
     ex_backend\<lparr>postToRedis := (\<lambda>stats userId store. (Some ''connection refused'', store)),
                connectToRedis := (\<lambda>store. Inl ''connection refused'')\<rparr>"

text \<open>Variations of that request, and the empty store it meets.\<close>

definition ex_get :: request where
  "ex_get = ex_request\<lparr>Method := ''GET''\<rparr>"

definition ex_put :: request where
  "ex_put = ex_request\<lparr>Method := ''PUT''\<rparr>"

definition ex_bad_id :: request where
  "ex_bad_id = ex_request\<lparr>URL_Path := ''/stats/abc''\<rparr>"

definition ex_no_hash :: request where
  "ex_no_hash = ex_request\<lparr>URL_Query := Map.empty\<rparr>"

definition ex_two_hashes :: request where
  "ex_two_hashes = ex_request\<lparr>URL_Query := [''hash'' \<mapsto> [ex_hash, ex_hash]]\<rparr>"

definition ex_wrong_hash :: request where
  "ex_wrong_hash = ex_request\<lparr>URL_Query := [''hash'' \<mapsto> [''c78c'']]\<rparr>"

definition ex_bad_body :: request where
  "ex_bad_body = ex_request\<lparr>Body := ''{''\<rparr>"

definition ex_handling :: "aggregation_store handling" where
  "ex_handling = new_handling Map.empty"

text \<open>Two submissions of user 42: three clicks, then two.\<close>

definition ex_clicks3 :: Stats where
  "ex_clicks3 = newStats\<lparr>Counter := [''clicks'' \<mapsto> 3]\<rparr>"

definition ex_clicks2 :: Stats where
  "ex_clicks2 = newStats\<lparr>Counter := [''clicks'' \<mapsto> 2]\<rparr>"

section \<open>Properties of the archiver\<close>

lemma time_Truncate_le: "0 < i \<Longrightarrow> time_Truncate t i \<le> t"
  by (simp add: time_Truncate_def)

lemma time_Truncate_gt: "0 < i \<Longrightarrow> t < time_Truncate t i + i"
proof -
  assume "0 < i"
  then have "t mod i < i" by simp
  with \<open>0 < i\<close> show ?thesis by (simp add: time_Truncate_def)
qed

lemma time_Truncate_dvd: "0 < i \<Longrightarrow> i dvd time_Truncate t i"
  by (simp add: time_Truncate_def dvd_eq_mod_eq_0 mod_diff_left_eq [symmetric])

lemma time_Truncate_unique:
  assumes "0 < i" "i dvd b" "b \<le> t" "t < b + i"
  shows "time_Truncate t i = b"
proof -
  from assms(2) obtain k where k: "b = i * k" by (auto simp: dvd_def)
  define r where "r = t - i * k"
  have r: "0 \<le> r" "r < i" using assms(3,4) by (simp_all add: r_def k)
  have "t mod i = (r + i * k) mod i" by (simp add: r_def)
  also have "\<dots> = r" using r by simp
  finally have "t - t mod i = i * k" by (simp add: r_def)
  then show ?thesis using assms(1) by (simp add: time_Truncate_def k)
qed

lemma nextInterval_eq: "nextInterval t i = time_Truncate t i + i"
  by (simp add: nextInterval_def time_Add_def)

lemma nextInterval_same_window:
  assumes "0 < i" "time_Truncate t i \<le> t'" "t' < nextInterval t i"
  shows "nextInterval t' i = nextInterval t i"
proof -
  have "time_Truncate t' i = time_Truncate t i"
    using assms(1) time_Truncate_dvd [OF assms(1)] assms(2) assms(3) [unfolded nextInterval_eq]
    by (rule time_Truncate_unique)
  then show ?thesis by (simp add: nextInterval_eq)
qed

lemma unixEpoch_day: "(24 * Hour) dvd unixEpoch"
  by (simp add: unixEpoch_def Hour_def Minute_def Second_def Nanosecond_def)

lemma archiveCycle_Slept:
  "Slept (archiveCycle env p d i st) = Slept st @ [time_Sub (nextInterval (Now1 env) i) (Now2 env)]"
  by (simp add: archiveCycle_def Let_def split: option.split)

lemma archiveCycle_Queried:
  "Queried (archiveCycle env p d i st) = Queried st @ [[d]]"
  by (simp add: archiveCycle_def Let_def split: option.split)

lemma archiveCycle_Written:
  "Written (archiveCycle env p d i st) = Written st @ snd (archiveToBigQuery env p d i)"
  by (simp add: archiveCycle_def Let_def split: option.split)

lemma archiveCycle_Log:
  "Log (archiveCycle env p d i st) =
     Log st @ (case fst (archiveToBigQuery env p d i) of None \<Rightarrow> []
               | Some err \<Rightarrow> [''Unable to archive dimension '' @ d @ '' to BigQuery: '' @ err])"
  by (simp add: archiveCycle_def Let_def split: option.split)

lemmas time_units = Hour_def Minute_def Second_def Nanosecond_def unixEpoch_def

lemma ex_archive:
  "archiveToBigQuery ex_env ''proj'' dim (10 * Minute) =
     (None, [(''proj.statshub.'' @ dim, ex_dimStats, unixEpoch + 1401626400 * Second)])"
  by (simp add: archiveToBigQuery_def ex_env_def datasetId_def Let_def time_Truncate_def
      ex_fire_def time_units)

subsection \<open>The next aligned boundary\<close>

text \<open>
  Claim C5. For every instant \<open>t\<close> and every positive interval \<open>i\<close>: the wait of a cycle is
  computed from \<open>nextInterval\<close>, which is \<open>Truncate(t, i) + i\<close>; it is strictly later than \<open>t\<close>
  (and at most \<open>i\<close> later); it is a multiple of \<open>i\<close> counted from Go's zero time, and for an
  interval that divides a day also counted from the Unix epoch; computed again at \<open>t\<close>, or
  at any instant of the same window, it is the same.
\<close>

theorem nextInterval_aligned:
  "0 < i \<Longrightarrow>
     Slept (archiveCycle env projectId dim i st) =
       Slept st @ [time_Sub (nextInterval (Now1 env) i) (Now2 env)] \<and>
     nextInterval t i = time_Truncate t i + i \<and>
     t < nextInterval t i \<and>
     nextInterval t i - i \<le> t \<and>
     i dvd nextInterval t i \<and>
     (i dvd 24 * Hour \<longrightarrow> i dvd nextInterval t i - unixEpoch) \<and>
     (\<forall>t'. time_Truncate t i \<le> t' \<and> t' < nextInterval t i \<longrightarrow> nextInterval t' i = nextInterval t i)"
proof (intro conjI allI impI)
  assume i: "0 < i"
  show "Slept (archiveCycle env projectId dim i st) =
       Slept st @ [time_Sub (nextInterval (Now1 env) i) (Now2 env)]"
    by (rule archiveCycle_Slept)
  show "nextInterval t i = time_Truncate t i + i"
    by (rule nextInterval_eq)
  show "t < nextInterval t i"
    using time_Truncate_gt [OF i] by (simp add: nextInterval_eq)
  show dv: "i dvd nextInterval t i"
    using time_Truncate_dvd [OF i] by (simp add: nextInterval_eq)
  show "nextInterval t i - i \<le> t"
    using time_Truncate_le [OF i] by (simp add: nextInterval_eq)
  { assume "i dvd 24 * Hour"
    then have "i dvd unixEpoch" using unixEpoch_day by (rule dvd_trans)
    with dv show "i dvd nextInterval t i - unixEpoch" by (rule dvd_diff) }
  { fix t' assume "time_Truncate t i \<le> t' \<and> t' < nextInterval t i"
    then show "nextInterval t' i = nextInterval t i"
      using nextInterval_same_window [OF i] by blast }
qed

theorem nextInterval_aligned_witness:
  "(0::int) < 10 * Minute \<and>
   Slept (archiveCycle ex_env ''proj'' ''fallback'' (10 * Minute) ex_archiver) = [303999999000] \<and>
   nextInterval ex_sched (10 * Minute) = unixEpoch + 1401626400 * Second \<and>
   ex_sched < nextInterval ex_sched (10 * Minute) \<and>
   10 * Minute dvd nextInterval ex_sched (10 * Minute) \<and>
   10 * Minute dvd nextInterval ex_sched (10 * Minute) - unixEpoch \<and>
   nextInterval (ex_sched + 5 * Second) (10 * Minute) = nextInterval ex_sched (10 * Minute)"
proof -
  have i: "(0::int) < 10 * Minute" by (simp add: time_units)
  have d: "10 * Minute dvd 24 * Hour" by (simp add: time_units)
  have n: "nextInterval ex_sched (10 * Minute) = unixEpoch + 1401626400 * Second"
    by (simp add: nextInterval_eq time_Truncate_def ex_sched_def time_units)
  have w: "time_Truncate ex_sched (10 * Minute) \<le> ex_sched + 5 * Second \<and>
           ex_sched + 5 * Second < nextInterval ex_sched (10 * Minute)"
    by (simp add: nextInterval_eq time_Truncate_def ex_sched_def time_units)
  note T = nextInterval_aligned [OF i, of ex_env "''proj''" "''fallback''" ex_archiver ex_sched]
  from T have s: "Slept (archiveCycle ex_env ''proj'' ''fallback'' (10 * Minute) ex_archiver) =
      Slept ex_archiver @ [time_Sub (nextInterval (Now1 ex_env) (10 * Minute)) (Now2 ex_env)]"
    by blast
  have s': "Slept (archiveCycle ex_env ''proj'' ''fallback'' (10 * Minute) ex_archiver) = [303999999000]"
    unfolding s by (simp add: ex_env_def ex_archiver_def n time_Sub_def maxDuration_def minDuration_def)
       (simp add: ex_sched_def time_units maxDuration_def minDuration_def)
  from T have a: "ex_sched < nextInterval ex_sched (10 * Minute)" by blast
  from T have b: "10 * Minute dvd nextInterval ex_sched (10 * Minute)" by blast
  from T d have c: "10 * Minute dvd nextInterval ex_sched (10 * Minute) - unixEpoch" by blast
  from T w have e: "nextInterval (ex_sched + 5 * Second) (10 * Minute) = nextInterval ex_sched (10 * Minute)"
    by blast
  from i s' n a b c e show ?thesis by blast
qed

subsection \<open>The timestamp of a snapshot\<close>

text \<open>
  Claim C3, as stated: the timestamp persisted by a cycle that fires at the instant \<open>now\<close>
  is \<open>Truncate(now, i) + i\<close>. It fails in the example cycle, which fires at 12:40:00.25 and
  persists 12:40:00, not 12:50:00.
\<close>

theorem snapshot_timestamp_not_next_boundary:
  "\<not> (\<forall>w \<in> set (snd (archiveToBigQuery ex_env ''proj'' ''fallback'' (10 * Minute))).
        snd (snd w) = time_Truncate (Now3 ex_env) (10 * Minute) + 10 * Minute)"
proof -
  have "time_Truncate (Now3 ex_env) (10 * Minute) = unixEpoch + 1401626400 * Second"
    by (simp add: time_Truncate_def ex_env_def ex_fire_def time_units)
  then show ?thesis
    by (simp add: ex_archive) (simp add: time_units)
qed

text \<open>
  Claim C3, amended. Every write of a cycle with a positive interval \<open>i\<close> carries the
  timestamp \<open>Truncate(now, i)\<close>, where \<open>now\<close> is read when the write is made: the aligned
  boundary at or before the write (a multiple of \<open>i\<close>, at most \<open>now\<close>, less than \<open>i\<close> before
  it). It equals the next boundary \<open>nextInterval\<close> computed at the scheduling decision
  whenever the write is made within one interval after that boundary.
\<close>

theorem snapshot_timestamp_is_truncated_now:
  "0 < i \<Longrightarrow>
     (\<forall>w \<in> set (snd (archiveToBigQuery env projectId dim i)).
        snd (snd w) = time_Truncate (Now3 env) i) \<and>
     Written (archiveCycle env projectId dim i st) =
       Written st @ snd (archiveToBigQuery env projectId dim i) \<and>
     time_Truncate (Now3 env) i \<le> Now3 env \<and>
     Now3 env < time_Truncate (Now3 env) i + i \<and>
     i dvd time_Truncate (Now3 env) i \<and>
     (nextInterval (Now1 env) i \<le> Now3 env \<and> Now3 env < nextInterval (Now1 env) i + i
        \<longrightarrow> time_Truncate (Now3 env) i = nextInterval (Now1 env) i)"
proof (intro conjI impI)
  assume i: "0 < i"
  show "\<forall>w \<in> set (snd (archiveToBigQuery env projectId dim i)).
          snd (snd w) = time_Truncate (Now3 env) i"
  proof (cases "QueryDims env [dim]")
    case (Inl err)
    then show ?thesis by (simp add: archiveToBigQuery_def)
  next
    case (Inr statsByDim)
    then show ?thesis
      by (cases statsByDim) (auto simp add: archiveToBigQuery_def Let_def split: sum.splits)
  qed
  show "Written (archiveCycle env projectId dim i st) =
          Written st @ snd (archiveToBigQuery env projectId dim i)"
    by (rule archiveCycle_Written)
  show "time_Truncate (Now3 env) i \<le> Now3 env" using i by (rule time_Truncate_le)
  show "Now3 env < time_Truncate (Now3 env) i + i" using i by (rule time_Truncate_gt)
  show "i dvd time_Truncate (Now3 env) i" using i by (rule time_Truncate_dvd)
  { assume a: "nextInterval (Now1 env) i \<le> Now3 env \<and> Now3 env < nextInterval (Now1 env) i + i"
    have "i dvd nextInterval (Now1 env) i"
      using time_Truncate_dvd [OF i] by (simp add: nextInterval_eq)
    then show "time_Truncate (Now3 env) i = nextInterval (Now1 env) i"
      using i a by (intro time_Truncate_unique) simp_all }
qed

theorem snapshot_timestamp_is_truncated_now_witness:
  "(0::int) < 10 * Minute \<and>
   map (\<lambda>w. snd (snd w)) (snd (archiveToBigQuery ex_env ''proj'' ''fallback'' (10 * Minute))) =
     [unixEpoch + 1401626400 * Second] \<and>
   time_Truncate (Now3 ex_env) (10 * Minute) = unixEpoch + 1401626400 * Second \<and>
   nextInterval (Now1 ex_env) (10 * Minute) \<le> Now3 ex_env \<and>
   Now3 ex_env < nextInterval (Now1 ex_env) (10 * Minute) + 10 * Minute \<and>
   time_Truncate (Now3 ex_env) (10 * Minute) = nextInterval (Now1 ex_env) (10 * Minute)"
proof -
  have i: "(0::int) < 10 * Minute" by (simp add: time_units)
  have n: "nextInterval (Now1 ex_env) (10 * Minute) = unixEpoch + 1401626400 * Second"
    by (simp add: nextInterval_eq time_Truncate_def ex_env_def ex_sched_def time_units)
  have f: "Now3 ex_env = unixEpoch + 1401626400 * Second + 250000000"
    by (simp add: ex_env_def ex_fire_def time_units)
  have w: "nextInterval (Now1 ex_env) (10 * Minute) \<le> Now3 ex_env \<and>
           Now3 ex_env < nextInterval (Now1 ex_env) (10 * Minute) + 10 * Minute"
    unfolding n f by (simp add: time_units)
  note T = snapshot_timestamp_is_truncated_now [OF i, of ex_env "''proj''" "''fallback''" ex_archiver]
  from T w have e: "time_Truncate (Now3 ex_env) (10 * Minute) = nextInterval (Now1 ex_env) (10 * Minute)"
    by blast
  have m: "map (\<lambda>w. snd (snd w)) (snd (archiveToBigQuery ex_env ''proj'' ''fallback'' (10 * Minute))) =
     [unixEpoch + 1401626400 * Second]"
    by (simp add: ex_archive)
  from i m e n w show ?thesis by simp
qed

subsection \<open>What one cycle writes\<close>

text \<open>
  Claim C4, as stated: when the query of a dimension returns several entities, only the
  first entity is written and the others are not. It fails in the example: the query for
  \<^verbatim>\<open>user\<close> returns one entry, the dimension, whose stats hold the entities 42 and 43, and
  the one call of \<^verbatim>\<open>WriteStats\<close> is handed both.
\<close>

theorem archive_writes_every_entity_of_first_entry:
  "QueryDims ex_env [''user''] = Inr [(''user'', ex_dimStats)] \<and>
   map fst ex_dimStats = [''42'', ''43''] \<and>
   written_entities (snd (archiveToBigQuery ex_env ''proj'' ''user'' (10 * Minute))) = [''42'', ''43'']"
  by (simp add: ex_archive written_entities_def) (simp add: ex_env_def ex_dimStats_def)

text \<open>
  Claim C4, amended. The loop over the map the query returned is left in its first
  iteration. For the first entry (a dimension name with that dimension's stats) one
  table is made and the whole of the entry's stats is handed to one call of
  \<^verbatim>\<open>WriteStats\<close>; the result of the cycle is the error of making the table, or else the
  result of that one write. Further entries of the map are not written. An empty map
  writes nothing and the cycle succeeds.
\<close>

theorem archive_first_entry_only:
  "(QueryDims env [dim] = Inr [] \<longrightarrow> archiveToBigQuery env projectId dim i = (None, [])) \<and>
   (QueryDims env [dim] = Inr ((dimName, dimStats) # rest) \<longrightarrow>
      archiveToBigQuery env projectId dim i =
        (case NewStatsTable env projectId datasetId dimName of
           Inl err \<Rightarrow> (Some err, [])
         | Inr statsTable \<Rightarrow>
             (WriteStats env statsTable dimStats (time_Truncate (Now3 env) i),
              [(statsTable, dimStats, time_Truncate (Now3 env) i)])) \<and>
      length (snd (archiveToBigQuery env projectId dim i)) \<le> 1 \<and>
      (\<forall>w \<in> set (snd (archiveToBigQuery env projectId dim i)). fst (snd w) = dimStats))"
  by (auto simp add: archiveToBigQuery_def Let_def split: sum.splits)

theorem archive_first_entry_only_witness:
  "QueryDims ex_env_write_fails [''user''] = Inr [(''user'', ex_dimStats)] \<and>
   archiveToBigQuery ex_env_write_fails ''proj'' ''user'' (24 * Hour) =
     (Some ''quota exceeded'',
      [(''proj.statshub.user'', ex_dimStats, time_Truncate (Now3 ex_env_write_fails) (24 * Hour))]) \<and>
   QueryDims (ex_env\<lparr>QueryDims := (\<lambda>dims. Inr [])\<rparr>) [''user''] = Inr [] \<and>
   archiveToBigQuery (ex_env\<lparr>QueryDims := (\<lambda>dims. Inr [])\<rparr>) ''proj'' ''user'' (24 * Hour) = (None, [])"
proof -
  have q: "QueryDims ex_env_write_fails [''user''] = Inr [(''user'', ex_dimStats)]"
    by (simp add: ex_env_write_fails_def ex_env_def)
  have q0: "QueryDims (ex_env\<lparr>QueryDims := (\<lambda>dims. Inr [])\<rparr>) [''user''] = Inr []"
    by simp
  from archive_first_entry_only [of ex_env_write_fails "''user''" "''proj''" "24 * Hour"
         "''user''" ex_dimStats "[]"] q
  have a: "archiveToBigQuery ex_env_write_fails ''proj'' ''user'' (24 * Hour) =
     (Some ''quota exceeded'',
      [(''proj.statshub.user'', ex_dimStats, time_Truncate (Now3 ex_env_write_fails) (24 * Hour))])"
    by (simp add: ex_env_write_fails_def ex_env_def datasetId_def)
  from archive_first_entry_only [of "ex_env\<lparr>QueryDims := (\<lambda>dims. Inr [])\<rparr>" "''user''" "''proj''" "24 * Hour"] q0
  have b: "archiveToBigQuery (ex_env\<lparr>QueryDims := (\<lambda>dims. Inr [])\<rparr>) ''proj'' ''user'' (24 * Hour) = (None, [])"
    by blast
  from q a q0 b show ?thesis by blast
qed

subsection \<open>The loop does not end on an error\<close>

lemma upt_add_Suc: "[n..<n + Suc k] = n # [Suc n..<Suc n + k]"
  by (simp add: upt_conv_Cons)

lemma archive_loop_run:
  "\<exists>st'. archive_loop k p d i envs n st = Running st' \<and>
     Slept st' = Slept st @
       map (\<lambda>j. time_Sub (nextInterval (Now1 (envs j)) i) (Now2 (envs j))) [n..<n + k] \<and>
     Queried st' = Queried st @ replicate k [d] \<and>
     Written st' = Written st @ concat (map (\<lambda>j. snd (archiveToBigQuery (envs j) p d i)) [n..<n + k]) \<and>
     Log st' = Log st @
       concat (map (\<lambda>j. case fst (archiveToBigQuery (envs j) p d i) of
                 None \<Rightarrow> []
               | Some err \<Rightarrow> [''Unable to archive dimension '' @ d @ '' to BigQuery: '' @ err])
            [n..<n + k])"
proof (induction k arbitrary: n st)
  case 0
  show ?case by simp
next
  case (Suc k)
  from Suc.IH [of "Suc n" "archiveCycle (envs n) p d i st"]
  obtain st' where r: "archive_loop k p d i envs (Suc n) (archiveCycle (envs n) p d i st) = Running st'"
    and s: "Slept st' = Slept (archiveCycle (envs n) p d i st) @
       map (\<lambda>j. time_Sub (nextInterval (Now1 (envs j)) i) (Now2 (envs j))) [Suc n..<Suc n + k]"
    and q: "Queried st' = Queried (archiveCycle (envs n) p d i st) @ replicate k [d]"
    and w: "Written st' = Written (archiveCycle (envs n) p d i st) @
       concat (map (\<lambda>j. snd (archiveToBigQuery (envs j) p d i)) [Suc n..<Suc n + k])"
    and l: "Log st' = Log (archiveCycle (envs n) p d i st) @
       concat (map (\<lambda>j. case fst (archiveToBigQuery (envs j) p d i) of
                 None \<Rightarrow> []
               | Some err \<Rightarrow> [''Unable to archive dimension '' @ d @ '' to BigQuery: '' @ err])
            [Suc n..<Suc n + k])"
    by blast
  show ?case
  proof (intro exI conjI)
    show "archive_loop (Suc k) p d i envs n st = Running st'"
      using r by simp
    show "Slept st' = Slept st @
       map (\<lambda>j. time_Sub (nextInterval (Now1 (envs j)) i) (Now2 (envs j))) [n..<n + Suc k]"
      by (simp only: s archiveCycle_Slept upt_add_Suc) simp
    show "Queried st' = Queried st @ replicate (Suc k) [d]"
      by (simp add: q archiveCycle_Queried replicate_app_Cons_same)
    show "Written st' = Written st @
       concat (map (\<lambda>j. snd (archiveToBigQuery (envs j) p d i)) [n..<n + Suc k])"
      by (simp only: w archiveCycle_Written upt_add_Suc) simp
    show "Log st' = Log st @
       concat (map (\<lambda>j. case fst (archiveToBigQuery (envs j) p d i) of
                 None \<Rightarrow> []
               | Some err \<Rightarrow> [''Unable to archive dimension '' @ d @ '' to BigQuery: '' @ err])
            [n..<n + Suc k])"
      by (simp only: l archiveCycle_Log upt_add_Suc) simp
  qed
qed

lemma archive_loop_next:
  "archive_loop k p d i envs n st = Running st' \<Longrightarrow>
   archive_loop (Suc k) p d i envs n st = Running (archiveCycle (envs (n + k)) p d i st')"
proof (induction k arbitrary: n st)
  case 0
  then show ?case by simp
next
  case (Suc k)
  from Suc.prems have "archive_loop k p d i envs (Suc n) (archiveCycle (envs n) p d i st) = Running st'"
    by simp
  from Suc.IH [OF this] show ?case by simp
qed

lemma ex_archive_down:
  "archiveToBigQuery ex_env_down ''proj'' ''fallback'' (10 * Minute) = (Some ''connection refused'', [])"
  by (simp add: archiveToBigQuery_def ex_env_down_def ex_env_def)

lemma ex_archive_write_fails:
  "fst (archiveToBigQuery ex_env_write_fails ''proj'' ''fallback'' (10 * Minute)) = Some ''quota exceeded''"
  by (simp add: archiveToBigQuery_def ex_env_write_fails_def ex_env_def Let_def)

text \<open>
  Claim C6. Whatever its cycles meet, the loop of a dimension is still running after
  any number \<open>k\<close> of iterations: it has not returned. By then it has slept \<open>k\<close> times, each
  wait computed from the next aligned boundary of its cycle, and has queried \<open>k\<close> times,
  once per cycle, so a failed cycle is not tried again; its log holds one line for each
  cycle whose query, table or write failed, with that error, and nothing else. After
  these \<open>k\<close> iterations the loop makes the next one: it computes the wait, sleeps and
  queries again, and when that cycle fails it logs the error and is running still.
\<close>

theorem archive_loop_survives_errors:
  "(case archive_loop k projectId dim i envs n st of
      Returned st' \<Rightarrow> False
    | Running st' \<Rightarrow>
        Slept st' = Slept st @
          map (\<lambda>j. time_Sub (nextInterval (Now1 (envs j)) i) (Now2 (envs j))) [n..<n + k] \<and>
        Queried st' = Queried st @ replicate k [dim] \<and>
        Written st' = Written st @
          concat (map (\<lambda>j. snd (archiveToBigQuery (envs j) projectId dim i)) [n..<n + k]) \<and>
        Log st' = Log st @
          concat (map (\<lambda>j. case fst (archiveToBigQuery (envs j) projectId dim i) of
                    None \<Rightarrow> []
                  | Some err \<Rightarrow> [''Unable to archive dimension '' @ dim @ '' to BigQuery: '' @ err])
               [n..<n + k]) \<and>
        archive_loop (Suc k) projectId dim i envs n st =
          Running (archiveCycle (envs (n + k)) projectId dim i st') \<and>
        Slept (archiveCycle (envs (n + k)) projectId dim i st') =
          Slept st' @ [time_Sub (nextInterval (Now1 (envs (n + k))) i) (Now2 (envs (n + k)))] \<and>
        Queried (archiveCycle (envs (n + k)) projectId dim i st') = Queried st' @ [[dim]] \<and>
        (\<forall>err. fst (archiveToBigQuery (envs (n + k)) projectId dim i) = Some err \<longrightarrow>
           Log (archiveCycle (envs (n + k)) projectId dim i st') =
             Log st' @ [''Unable to archive dimension '' @ dim @ '' to BigQuery: '' @ err]))"
proof -
  from archive_loop_run [of k projectId dim i envs n st]
  obtain st' where r: "archive_loop k projectId dim i envs n st = Running st'"
    and p: "Slept st' = Slept st @
          map (\<lambda>j. time_Sub (nextInterval (Now1 (envs j)) i) (Now2 (envs j))) [n..<n + k]"
      "Queried st' = Queried st @ replicate k [dim]"
      "Written st' = Written st @
          concat (map (\<lambda>j. snd (archiveToBigQuery (envs j) projectId dim i)) [n..<n + k])"
      "Log st' = Log st @
          concat (map (\<lambda>j. case fst (archiveToBigQuery (envs j) projectId dim i) of
                    None \<Rightarrow> []
                  | Some err \<Rightarrow> [''Unable to archive dimension '' @ dim @ '' to BigQuery: '' @ err])
               [n..<n + k])"
    by blast
  have x: "archive_loop (Suc k) projectId dim i envs n st =
          Running (archiveCycle (envs (n + k)) projectId dim i st')"
    using r by (rule archive_loop_next)
  show ?thesis
    unfolding r x
    by (simp only: outcome.case p archiveCycle_Slept archiveCycle_Queried archiveCycle_Log) simp
qed

theorem archive_loop_survives_errors_witness:
  "fst (archiveToBigQuery (ex_envs 0) ''proj'' ''fallback'' (10 * Minute)) = Some ''connection refused'' \<and>
   fst (archiveToBigQuery (ex_envs 1) ''proj'' ''fallback'' (10 * Minute)) = Some ''quota exceeded'' \<and>
   fst (archiveToBigQuery (ex_envs 2) ''proj'' ''fallback'' (10 * Minute)) = None \<and>
   (case archive_loop 2 ''proj'' ''fallback'' (10 * Minute) ex_envs 0 ex_archiver of
      Returned st' \<Rightarrow> False
    | Running st' \<Rightarrow>
        Log st' = [''Unable to archive dimension fallback to BigQuery: connection refused'',
                   ''Unable to archive dimension fallback to BigQuery: quota exceeded''] \<and>
        Queried st' = [[''fallback''], [''fallback'']] \<and>
        length (Slept st') = 2 \<and>
        archive_loop 3 ''proj'' ''fallback'' (10 * Minute) ex_envs 0 ex_archiver =
          Running (archiveCycle (ex_envs 2) ''proj'' ''fallback'' (10 * Minute) st') \<and>
        length (Slept (archiveCycle (ex_envs 2) ''proj'' ''fallback'' (10 * Minute) st')) = 3 \<and>
        Log (archiveCycle (ex_envs 2) ''proj'' ''fallback'' (10 * Minute) st') = Log st') \<and>
   (case archive_loop 0 ''proj'' ''fallback'' (10 * Minute) ex_envs 0 ex_archiver of
      Returned st' \<Rightarrow> False
    | Running st' \<Rightarrow>
        Log (archiveCycle (ex_envs 0) ''proj'' ''fallback'' (10 * Minute) st') =
          Log st' @ [''Unable to archive dimension fallback to BigQuery: connection refused''])"
proof -
  have f0: "fst (archiveToBigQuery (ex_envs 0) ''proj'' ''fallback'' (10 * Minute)) = Some ''connection refused''"
    by (simp add: ex_envs_def ex_archive_down)
  have f1: "fst (archiveToBigQuery (ex_envs 1) ''proj'' ''fallback'' (10 * Minute)) = Some ''quota exceeded''"
    by (simp add: ex_envs_def ex_archive_write_fails)
  have f2: "fst (archiveToBigQuery (ex_envs 2) ''proj'' ''fallback'' (10 * Minute)) = None"
    by (simp add: ex_envs_def ex_archive)
  have u: "[0..<0 + 2] = [0, 1::nat]"
    by (simp add: upt_rec)
  note T = archive_loop_survives_errors [where k = 2 and projectId = "''proj''" and dim = "''fallback''"
    and i = "10 * Minute" and envs = ex_envs and n = 0 and st = ex_archiver]
  note T0 = archive_loop_survives_errors [where k = 0 and projectId = "''proj''" and dim = "''fallback''"
    and i = "10 * Minute" and envs = ex_envs and n = 0 and st = ex_archiver]
  have a: "case archive_loop 2 ''proj'' ''fallback'' (10 * Minute) ex_envs 0 ex_archiver of
      Returned st' \<Rightarrow> False
    | Running st' \<Rightarrow>
        Log st' = [''Unable to archive dimension fallback to BigQuery: connection refused'',
                   ''Unable to archive dimension fallback to BigQuery: quota exceeded''] \<and>
        Queried st' = [[''fallback''], [''fallback'']] \<and>
        length (Slept st') = 2 \<and>
        archive_loop 3 ''proj'' ''fallback'' (10 * Minute) ex_envs 0 ex_archiver =
          Running (archiveCycle (ex_envs 2) ''proj'' ''fallback'' (10 * Minute) st') \<and>
        length (Slept (archiveCycle (ex_envs 2) ''proj'' ''fallback'' (10 * Minute) st')) = 3 \<and>
        Log (archiveCycle (ex_envs 2) ''proj'' ''fallback'' (10 * Minute) st') = Log st'"
  proof (cases "archive_loop 2 ''proj'' ''fallback'' (10 * Minute) ex_envs 0 ex_archiver")
    case (Returned st')
    with T show ?thesis by simp
  next
    case (Running st')
    from T [unfolded Running outcome.case u] f0 f1
    have "Log st' = [''Unable to archive dimension fallback to BigQuery: connection refused'',
                   ''Unable to archive dimension fallback to BigQuery: quota exceeded'']"
      and "Queried st' = [[''fallback''], [''fallback'']]"
      and "length (Slept st') = 2"
      and "archive_loop (Suc 2) ''proj'' ''fallback'' (10 * Minute) ex_envs 0 ex_archiver =
          Running (archiveCycle (ex_envs 2) ''proj'' ''fallback'' (10 * Minute) st')"
      and "length (Slept (archiveCycle (ex_envs 2) ''proj'' ''fallback'' (10 * Minute) st')) = 3"
      by (simp_all add: ex_archiver_def numeral_2_eq_2)
    moreover have "Log (archiveCycle (ex_envs 2) ''proj'' ''fallback'' (10 * Minute) st') = Log st'"
      by (simp add: archiveCycle_Log f2)
    moreover have "Suc 2 = 3" by simp
    ultimately show ?thesis
      unfolding Running by (simp del: archive_loop.simps)
  qed
  have b: "case archive_loop 0 ''proj'' ''fallback'' (10 * Minute) ex_envs 0 ex_archiver of
      Returned st' \<Rightarrow> False
    | Running st' \<Rightarrow>
        Log (archiveCycle (ex_envs 0) ''proj'' ''fallback'' (10 * Minute) st') =
          Log st' @ [''Unable to archive dimension fallback to BigQuery: connection refused'']"
    using T0 f0 by (simp del: archive_loop.simps split: outcome.splits)
  from f0 f1 f2 a b show ?thesis by blast
qed

subsection \<open>What \<^verbatim>\<open>Start\<close> schedules\<close>

text \<open>
  Claim C8. With an empty project identifier \<^verbatim>\<open>Start\<close> starts no goroutine; with any
  other it starts exactly three, one per dimension: \<^verbatim>\<open>fallback\<close> every 10 minutes,
  \<^verbatim>\<open>country\<close> every hour and \<^verbatim>\<open>user\<close> every 24 hours. (\<^verbatim>\<open>Start\<close> reads and changes nothing
  of the stats endpoint, whose model below does not depend on the project identifier.)
\<close>

theorem Start_schedules:
  "snd (Start '''') = [] \<and>
   (projectId \<noteq> '''' \<longrightarrow>
      snd (Start projectId) =
        [ArchiveLoop ''fallback'' (600 * Second),
         ArchiveLoop ''country'' (3600 * Second),
         ArchiveLoop ''user'' (86400 * Second)])"
  by (simp add: Start_def archivePeriodically_def Hour_def Minute_def)

theorem Start_schedules_witness:
  "''my-project'' \<noteq> '''' \<and>
   snd (Start ''my-project'') =
     [ArchiveLoop ''fallback'' (600 * Second),
      ArchiveLoop ''country'' (3600 * Second),
      ArchiveLoop ''user'' (86400 * Second)] \<and>
   snd (Start '''') = []"
proof -
  have n: "''my-project'' \<noteq> ''''" by simp
  from Start_schedules [of "''my-project''"] n show ?thesis by blast
qed

section \<open>Properties of the stats endpoint\<close>

subsection \<open>The digest of the documented example\<close>

text \<open>
  The package comment of \<^verbatim>\<open>statshub.go\<close> gives a request with its hash. The model
  computes that hash for the user \<^verbatim>\<open>example@example.com\<close> and the id 523523: the real
  identity comes first, the decimal form of the id second, and the digest is printed
  in lower-case hexadecimal.
\<close>

lemma ex_decimal: "Sprintf_d 523523 = ''523523''"
  by (simp add: Sprintf_d_def decimal.simps digitChar_def)

lemma ex_digest:
  "EncodeToString (Sum256 (bytes_of ''example@example.com523523'')) =
     ''c78c666ec1016b8ed66b40bb46e0883020ff7c9d2f2010c0e2dbfbfc358888a2''"
  by code_simp

lemma ex_AuthProof: "AuthProof ''example@example.com'' 523523 = ex_hash"
  by (simp add: AuthProof_def ex_decimal ex_digest ex_hash_def)

subsection \<open>Lemmas on the handler\<close>

lemma authenticateAgainst_cases:
  "authenticateAgainst be ui r =
     (case CurrentOAuth be r of
        Inl err \<Rightarrow> (401, Some (NotAuthenticated err), [])
      | Inr u \<Rightarrow>
          if AuthProof (Email u) (UserId ui) \<noteq> Hash ui
          then (403, Some HashMismatch, [ExpectedHash (AuthProof (Email u) (UserId ui))])
          else (0, None, [ExpectedHash (AuthProof (Email u) (UserId ui))]))"
  by (simp add: authenticateAgainst_def AuthProof_def Let_def split: sum.split)

lemma Status_write_data: "Status w = None \<Longrightarrow> Status (write_data be w c d) = Some c"
  by (simp add: write_data_def WriteHeader_def Let_def split: sum.split)

lemma Status_fail: "Status w = None \<Longrightarrow> Status (fail be w c e) = Some c"
  by (simp add: fail_def Status_write_data)

lemma Store_write_data: "Store (write_data be w c d) = Store w"
  by (simp add: write_data_def WriteHeader_def Let_def split: sum.split option.split)

lemma Store_fail: "Store (fail be w c e) = Store w"
  by (simp add: fail_def Store_write_data)

lemma statsHandler_malformed:
  "getUserInfo r = Inl e \<Longrightarrow> statsHandler be r w = fail be w 400 e"
  by (simp add: statsHandler_def)

lemma statsHandler_auth_fails:
  "getUserInfo r = Inr ui \<Longrightarrow> authenticateAgainst be ui r = (c, Some e, l) \<Longrightarrow>
   statsHandler be r w = fail be (w\<lparr>Logged := Logged w @ l\<rparr>) c e"
  by (simp add: statsHandler_def)

lemma statsHandler_accepted:
  "getUserInfo r = Inr ui \<Longrightarrow> authenticateAgainst be ui r = (c, None, l) \<Longrightarrow>
   statsHandler be r w =
     (let w1 = w\<lparr>Logged := Logged w @ l\<rparr> in
      if ''POST'' = Method r then
        (let w2 = w1\<lparr>Header := (Header w1)(''Content-Type'' \<mapsto> ''application/json'')\<rparr>
         in case postStats be r ui (Store w2) of
              ((statusCode, Inl err), store') \<Rightarrow> fail be (w2\<lparr>Store := store'\<rparr>) statusCode err
            | ((statusCode, Inr resp), store') \<Rightarrow> write_data be (w2\<lparr>Store := store'\<rparr>) 200 resp)
      else if ''GET'' = Method r then
        (let w2 = w1\<lparr>Header := (Header w1)(''Content-Type'' \<mapsto> ''application/json'')\<rparr>
         in case getStats be r ui (Store w2) of
              (statusCode, Inl err) \<Rightarrow> fail be w2 statusCode err
            | (statusCode, Inr resp) \<Rightarrow> write_data be w2 200 resp)
      else WriteHeader (w1\<lparr>Logged := Logged w1 @ [QueryLog (URL_Query r)]\<rparr>) 405)"
  by (simp add: statsHandler_def)

lemma getUserInfo_fails_iff: "isl (getUserInfo r) \<longleftrightarrow> malformed r"
  by (auto simp add: getUserInfo_def malformed_def userIdString_def Let_def
      split: sum.splits option.splits)

lemma auth_unauthenticated:
  "CurrentOAuth be r = Inl err \<Longrightarrow> authenticateAgainst be ui r = (401, Some (NotAuthenticated err), [])"
  by (simp add: authenticateAgainst_cases)

lemma auth_mismatch:
  "CurrentOAuth be r = Inr u \<Longrightarrow> Hash ui \<noteq> AuthProof (Email u) (UserId ui) \<Longrightarrow>
   authenticateAgainst be ui r = (403, Some HashMismatch, [ExpectedHash (AuthProof (Email u) (UserId ui))])"
  by (auto simp add: authenticateAgainst_cases)

lemma auth_ok:
  "CurrentOAuth be r = Inr u \<Longrightarrow> Hash ui = AuthProof (Email u) (UserId ui) \<Longrightarrow>
   authenticateAgainst be ui r = (0, None, [ExpectedHash (AuthProof (Email u) (UserId ui))])"
  by (simp add: authenticateAgainst_cases)

lemma Status_malformed:
  assumes "Status w = None" "malformed r"
  shows "Status (statsHandler be r w) = Some 400"
proof -
  from assms(2) have "isl (getUserInfo r)" by (simp add: getUserInfo_fails_iff)
  then obtain e where "getUserInfo r = Inl e" by (cases "getUserInfo r") simp_all
  then show ?thesis using assms(1) by (simp add: statsHandler_malformed Status_fail)
qed

lemma Status_auth_fails:
  assumes "Status w = None" "getUserInfo r = Inr ui" "authenticateAgainst be ui r = (c, Some e, l)"
  shows "Status (statsHandler be r w) = Some c"
  using assms by (simp add: statsHandler_auth_fails Status_fail)

lemma Status_accepted_post:
  assumes "Status w = None" "getUserInfo r = Inr ui" "authenticateAgainst be ui r = (c, None, l)"
    "Method r = ''POST''"
  shows "Status (statsHandler be r w) = Some
     (case Decode be (Body r) of Inl _ \<Rightarrow> 400
      | Inr sub \<Rightarrow> (case fst (postToRedis be sub (UserId ui) (Store w)) of Some _ \<Rightarrow> 500 | None \<Rightarrow> 200))"
  using assms
  by (simp add: statsHandler_accepted postStats_def Let_def Status_fail Status_write_data
      split: sum.split prod.split option.split)

lemma Status_accepted_get:
  assumes "Status w = None" "getUserInfo r = Inr ui" "authenticateAgainst be ui r = (c, None, l)"
    "Method r = ''GET''"
  shows "Status (statsHandler be r w) = Some
     (case connectToRedis be (Store w) of Inl _ \<Rightarrow> 500
      | Inr conn \<Rightarrow> (case query be conn (UserId ui) (Store w) of Inl _ \<Rightarrow> 500 | Inr _ \<Rightarrow> 200))"
  using assms
  by (simp add: statsHandler_accepted getStats_def Let_def Status_fail Status_write_data
      split: sum.split prod.split option.split)

lemma accepted_other:
  assumes "getUserInfo r = Inr ui" "authenticateAgainst be ui r = (c, None, l)"
    "Method r \<noteq> ''POST''" "Method r \<noteq> ''GET''"
  shows "statsHandler be r w =
     WriteHeader (w\<lparr>Logged := Logged w @ l @ [QueryLog (URL_Query r)]\<rparr>) 405"
  using assms by (simp add: statsHandler_accepted Let_def eq_commute [of _ "Method r"])

lemma ex_getUserInfo: "getUserInfo ex_request = Inr \<lparr>UserId = 523523, Hash = ex_hash\<rparr>"
  by (simp add: getUserInfo_def ex_request_def LastIndex_def Atoi_def isDigit_def parseDigits_def
      digitVal_def Let_def)

lemma getUserInfo_Method [simp]: "getUserInfo (r\<lparr>Method := m\<rparr>) = getUserInfo r"
  by (simp add: getUserInfo_def Let_def split: sum.split)

lemma getUserInfo_Body [simp]: "getUserInfo (r\<lparr>Body := b\<rparr>) = getUserInfo r"
  by (simp add: getUserInfo_def Let_def split: sum.split)

lemma ex_getUserInfo_wrong_hash:
  "getUserInfo ex_wrong_hash = Inr \<lparr>UserId = 523523, Hash = ''c78c''\<rparr>"
  by (simp add: getUserInfo_def ex_wrong_hash_def ex_request_def LastIndex_def Atoi_def isDigit_def
      parseDigits_def digitVal_def Let_def)

lemma ex_malformed:
  "malformed ex_bad_id" "malformed ex_no_hash" "malformed ex_two_hashes"
  by (simp_all add: malformed_def ex_bad_id_def ex_no_hash_def ex_two_hashes_def ex_request_def
      userIdString_def LastIndex_def Atoi_def isDigit_def Let_def)

lemma ex_handling_Status: "Status ex_handling = None"
  by (simp add: ex_handling_def new_handling_def)

lemma ex_CurrentOAuth:
  "CurrentOAuth ex_backend r = Inr \<lparr>Email = ''example@example.com''\<rparr>"
  "CurrentOAuth ex_backend_store_down r = Inr \<lparr>Email = ''example@example.com''\<rparr>"
  "CurrentOAuth ex_backend_anonymous r = Inl ''no OAuth token''"
  by (simp_all add: ex_backend_def ex_backend_store_down_def ex_backend_anonymous_def)

lemma authenticateAgainst_postToRedis [simp]:
  "authenticateAgainst (be\<lparr>postToRedis := f\<rparr>) ui r = authenticateAgainst be ui r"
  by (simp add: authenticateAgainst_def)

lemma fail_postToRedis [simp]: "fail (be\<lparr>postToRedis := f\<rparr>) w c e = fail be w c e"
  by (simp add: fail_def write_data_def)

subsection \<open>Authentication\<close>

text \<open>
  Claim C1. For a caller whom the identity provider authenticates as \<open>u\<close>, and a request
  that claims the user id \<open>UserId ui\<close> with the proof \<open>Hash ui\<close>: \<^verbatim>\<open>authenticateAgainst\<close>
  returns no error exactly when the proof equals the hex-encoded SHA-256 digest of the
  bytes of the real identity followed by the decimal form of the id (the \<open>AuthProof\<close> of
  the spec); for every other proof it returns the status 403 with the error of a hash
  mismatch. The function takes no store and returns none.
\<close>

theorem authenticateAgainst_iff:
  "CurrentOAuth be r = Inr u \<Longrightarrow>
     (fst (snd (authenticateAgainst be ui r)) = None
        \<longleftrightarrow> Hash ui = EncodeToString (Sum256 (bytes_of (Email u @ Sprintf_d (UserId ui))))) \<and>
     AuthProof (Email u) (UserId ui) =
        EncodeToString (Sum256 (bytes_of (Email u @ Sprintf_d (UserId ui)))) \<and>
     (Hash ui \<noteq> EncodeToString (Sum256 (bytes_of (Email u @ Sprintf_d (UserId ui))))
        \<longrightarrow> fst (authenticateAgainst be ui r) = 403 \<and>
            fst (snd (authenticateAgainst be ui r)) = Some HashMismatch)"
  by (auto simp add: authenticateAgainst_def AuthProof_def Let_def)

theorem authenticateAgainst_iff_witness:
  "CurrentOAuth ex_backend ex_request = Inr \<lparr>Email = ''example@example.com''\<rparr> \<and>
   fst (snd (authenticateAgainst ex_backend \<lparr>UserId = 523523, Hash = ex_hash\<rparr> ex_request)) = None \<and>
   ''c78c'' \<noteq> EncodeToString (Sum256 (bytes_of (''example@example.com'' @ Sprintf_d 523523))) \<and>
   fst (authenticateAgainst ex_backend \<lparr>UserId = 523523, Hash = ''c78c''\<rparr> ex_request) = 403 \<and>
   fst (snd (authenticateAgainst ex_backend \<lparr>UserId = 523523, Hash = ''c78c''\<rparr> ex_request))
     = Some HashMismatch"
proof -
  have o: "CurrentOAuth ex_backend ex_request = Inr \<lparr>Email = ''example@example.com''\<rparr>"
    by (simp add: ex_backend_def)
  have d: "EncodeToString (Sum256 (bytes_of (''example@example.com'' @ Sprintf_d 523523))) = ex_hash"
    using ex_AuthProof by (simp add: AuthProof_def)
  have n: "''c78c'' \<noteq> EncodeToString (Sum256 (bytes_of (''example@example.com'' @ Sprintf_d 523523)))"
    unfolding d by (simp add: ex_hash_def)
  from authenticateAgainst_iff [OF o, of "\<lparr>UserId = 523523, Hash = ex_hash\<rparr>"] d
  have a: "fst (snd (authenticateAgainst ex_backend \<lparr>UserId = 523523, Hash = ex_hash\<rparr> ex_request)) = None"
    by simp
  from authenticateAgainst_iff [OF o, of "\<lparr>UserId = 523523, Hash = ''c78c''\<rparr>"] n
  have b: "fst (authenticateAgainst ex_backend \<lparr>UserId = 523523, Hash = ''c78c''\<rparr> ex_request) = 403 \<and>
     fst (snd (authenticateAgainst ex_backend \<lparr>UserId = 523523, Hash = ''c78c''\<rparr> ex_request))
       = Some HashMismatch"
    by simp
  from o a n b show ?thesis by blast
qed

subsection \<open>Status codes\<close>

text \<open>
  Claim C7, as stated: the status is 400 whenever the body of a POST fails to decode, and
  405 whenever the method is neither GET nor POST. Both fail: the body is decoded, and
  the method looked at, only after the request was parsed and authenticated. A POST
  with an undecodable body from an unauthenticated caller gets 401, and a DELETE without
  a hash gets 400.
\<close>

theorem undecodable_body_of_unauthenticated_post:
  "Method ex_bad_body = ''POST'' \<and>
   isl (Decode ex_backend_anonymous (Body ex_bad_body)) \<and>
   Status (statsHandler ex_backend_anonymous ex_bad_body ex_handling) = Some 401 \<and>
   Method (ex_no_hash\<lparr>Method := ''DELETE''\<rparr>) = ''DELETE'' \<and>
   Status (statsHandler ex_backend (ex_no_hash\<lparr>Method := ''DELETE''\<rparr>) ex_handling) = Some 400"
proof -
  have g: "getUserInfo ex_bad_body = Inr \<lparr>UserId = 523523, Hash = ex_hash\<rparr>"
    by (simp add: ex_bad_body_def ex_getUserInfo)
  have a: "Status (statsHandler ex_backend_anonymous ex_bad_body ex_handling) = Some 401"
    by (rule Status_auth_fails [OF ex_handling_Status g auth_unauthenticated [OF ex_CurrentOAuth(3)]])
  have "malformed (ex_no_hash\<lparr>Method := ''DELETE''\<rparr>)"
    using ex_malformed(2) by (simp add: malformed_def userIdString_def)
  then have b: "Status (statsHandler ex_backend (ex_no_hash\<lparr>Method := ''DELETE''\<rparr>) ex_handling) = Some 400"
    by (rule Status_malformed [OF ex_handling_Status])
  show ?thesis
    using a b by (simp add: ex_bad_body_def ex_request_def ex_backend_anonymous_def ex_backend_def)
qed

text \<open>
  Claim C7, amended. For a request that meets a response writer on which no status was
  set, the status is decided in this order: 400 when the request is malformed (the user
  id is missing or not an integer, the hash is missing or not given exactly once);
  otherwise 401 when the caller is not authenticated; otherwise 403 when the hash is
  not the computed one; otherwise, for a POST, 400 when the body fails to decode, 500
  when the store fails and 200 when it succeeds; for a GET, 500 when the store fails
  and 200 when it succeeds; and 405 for every other method.
\<close>

theorem statsHandler_status:
  "Status w = None \<Longrightarrow>
   (malformed r \<longrightarrow> Status (statsHandler be r w) = Some 400) \<and>
   (getUserInfo r = Inr ui \<longrightarrow>
      \<not> malformed r \<and>
      (\<forall>err. CurrentOAuth be r = Inl err \<longrightarrow> Status (statsHandler be r w) = Some 401) \<and>
      (\<forall>u. CurrentOAuth be r = Inr u \<longrightarrow>
         (Hash ui \<noteq> AuthProof (Email u) (UserId ui) \<longrightarrow>
            Status (statsHandler be r w) = Some 403) \<and>
         (Hash ui = AuthProof (Email u) (UserId ui) \<longrightarrow>
            (Method r = ''POST'' \<longrightarrow>
               (\<forall>err. Decode be (Body r) = Inl err \<longrightarrow>
                  Status (statsHandler be r w) = Some 400) \<and>
               (\<forall>stats. Decode be (Body r) = Inr stats \<longrightarrow>
                  Status (statsHandler be r w) =
                    Some (if fst (postToRedis be stats (UserId ui) (Store w)) = None
                          then 200 else 500))) \<and>
            (Method r = ''GET'' \<longrightarrow>
               Status (statsHandler be r w) =
                 Some (case connectToRedis be (Store w) of
                         Inl err \<Rightarrow> 500
                       | Inr conn \<Rightarrow>
                           if isl (query be conn (UserId ui) (Store w)) then 500 else 200)) \<and>
            (Method r \<noteq> ''POST'' \<and> Method r \<noteq> ''GET'' \<longrightarrow>
               Status (statsHandler be r w) = Some 405))))"
proof (intro conjI impI allI)
  assume w: "Status w = None"
  { assume "malformed r"
    with w show "Status (statsHandler be r w) = Some 400" by (rule Status_malformed) }
  { assume g: "getUserInfo r = Inr ui"
    then show "\<not> malformed r"
      using getUserInfo_fails_iff [of r] by simp
    { fix err assume e: "CurrentOAuth be r = Inl err"
      show "Status (statsHandler be r w) = Some 401"
        by (rule Status_auth_fails [OF w g auth_unauthenticated [OF e]]) }
    { fix u assume o: "CurrentOAuth be r = Inr u"
      { assume n: "Hash ui \<noteq> AuthProof (Email u) (UserId ui)"
        show "Status (statsHandler be r w) = Some 403"
          by (rule Status_auth_fails [OF w g auth_mismatch [OF o n]]) }
      { assume h: "Hash ui = AuthProof (Email u) (UserId ui)"
        note a = auth_ok [OF o h]
        { assume m: "Method r = ''POST''"
          { fix err assume "Decode be (Body r) = Inl err"
            then show "Status (statsHandler be r w) = Some 400"
              by (simp add: Status_accepted_post [OF w g a m]) }
          { fix stats assume "Decode be (Body r) = Inr stats"
            then show "Status (statsHandler be r w) =
                    Some (if fst (postToRedis be stats (UserId ui) (Store w)) = None
                          then 200 else 500)"
              by (simp add: Status_accepted_post [OF w g a m] split: option.split) } }
        { assume m: "Method r = ''GET''"
          show "Status (statsHandler be r w) =
                 Some (case connectToRedis be (Store w) of
                         Inl err \<Rightarrow> 500
                       | Inr conn \<Rightarrow>
                           if isl (query be conn (UserId ui) (Store w)) then 500 else 200)"
            by (simp add: Status_accepted_get [OF w g a m] split: sum.split) }
        { assume "Method r \<noteq> ''POST'' \<and> Method r \<noteq> ''GET''"
          then show "Status (statsHandler be r w) = Some 405"
            using w by (simp add: accepted_other [OF g a] WriteHeader_def) } } } }
qed

theorem statsHandler_status_witness:
  "Status (statsHandler ex_backend ex_bad_id ex_handling) = Some 400 \<and>
   Status (statsHandler ex_backend ex_no_hash ex_handling) = Some 400 \<and>
   Status (statsHandler ex_backend ex_two_hashes ex_handling) = Some 400 \<and>
   Status (statsHandler ex_backend_anonymous ex_request ex_handling) = Some 401 \<and>
   Status (statsHandler ex_backend ex_wrong_hash ex_handling) = Some 403 \<and>
   Status (statsHandler ex_backend ex_bad_body ex_handling) = Some 400 \<and>
   Status (statsHandler ex_backend_store_down ex_request ex_handling) = Some 500 \<and>
   Status (statsHandler ex_backend ex_request ex_handling) = Some 200 \<and>
   Status (statsHandler ex_backend_store_down ex_get ex_handling) = Some 500 \<and>
   Status (statsHandler ex_backend ex_get ex_handling) = Some 200 \<and>
   Status (statsHandler ex_backend ex_put ex_handling) = Some 405"
proof -
  note A = ex_AuthProof
  note w = ex_handling_Status
  let ?ui = "\<lparr>UserId = 523523, Hash = ex_hash\<rparr>"
  let ?u = "\<lparr>Email = ''example@example.com''\<rparr>"
  have h: "Hash ?ui = AuthProof (Email ?u) (UserId ?ui)" using A by simp
  have n: "Hash \<lparr>UserId = 523523, Hash = ''c78c''\<rparr> \<noteq> AuthProof (Email ?u) (UserId \<lparr>UserId = 523523, Hash = ''c78c''\<rparr>)"
    using A by (simp add: ex_hash_def)
  have g: "getUserInfo ex_request = Inr ?ui" "getUserInfo ex_bad_body = Inr ?ui"
    "getUserInfo ex_get = Inr ?ui" "getUserInfo ex_put = Inr ?ui"
    by (simp_all add: ex_bad_body_def ex_get_def ex_put_def ex_getUserInfo)
  have m: "Method ex_request = ''POST''" "Method ex_bad_body = ''POST''" "Method ex_get = ''GET''"
    "Method ex_put \<noteq> ''POST'' \<and> Method ex_put \<noteq> ''GET''"
    by (simp_all add: ex_bad_body_def ex_get_def ex_put_def ex_request_def)
  have c1: "Status (statsHandler ex_backend ex_bad_id ex_handling) = Some 400"
    using statsHandler_status [OF w, of ex_bad_id ex_backend] ex_malformed(1) by blast
  have c2: "Status (statsHandler ex_backend ex_no_hash ex_handling) = Some 400"
    using statsHandler_status [OF w, of ex_no_hash ex_backend] ex_malformed(2) by blast
  have c3: "Status (statsHandler ex_backend ex_two_hashes ex_handling) = Some 400"
    using statsHandler_status [OF w, of ex_two_hashes ex_backend] ex_malformed(3) by blast
  have c4: "Status (statsHandler ex_backend_anonymous ex_request ex_handling) = Some 401"
    using statsHandler_status [OF w, of ex_request ex_backend_anonymous ?ui] g(1) ex_CurrentOAuth(3) by blast
  have c5: "Status (statsHandler ex_backend ex_wrong_hash ex_handling) = Some 403"
    using statsHandler_status [OF w, of ex_wrong_hash ex_backend "\<lparr>UserId = 523523, Hash = ''c78c''\<rparr>"]
      ex_getUserInfo_wrong_hash ex_CurrentOAuth(1) [of ex_wrong_hash] n by blast
  have d6: "Decode ex_backend (Body ex_bad_body) = Inl ''unexpected end of JSON input''"
    by (simp add: ex_backend_def ex_bad_body_def)
  have c6: "Status (statsHandler ex_backend ex_bad_body ex_handling) = Some 400"
    using statsHandler_status [OF w, of ex_bad_body ex_backend ?ui] g(2) ex_CurrentOAuth(1) [of ex_bad_body] h m(2) d6
    by blast
  have d7: "Decode ex_backend_store_down (Body ex_request) = Inr newStats"
    "fst (postToRedis ex_backend_store_down newStats (UserId ?ui) (Store ex_handling)) \<noteq> None"
    by (simp_all add: ex_backend_store_down_def ex_backend_def ex_request_def)
  have "Status (statsHandler ex_backend_store_down ex_request ex_handling) =
          Some (if fst (postToRedis ex_backend_store_down newStats (UserId ?ui) (Store ex_handling)) = None
                then 200 else 500)"
    using statsHandler_status [OF w, of ex_request ex_backend_store_down ?ui] g(1)
      ex_CurrentOAuth(2) [of ex_request] h m(1) d7(1) by blast
  with d7(2) have c7: "Status (statsHandler ex_backend_store_down ex_request ex_handling) = Some 500"
    by simp
  have d8: "Decode ex_backend (Body ex_request) = Inr newStats"
    "fst (postToRedis ex_backend newStats (UserId ?ui) (Store ex_handling)) = None"
    by (simp_all add: ex_backend_def ex_request_def)
  have "Status (statsHandler ex_backend ex_request ex_handling) =
          Some (if fst (postToRedis ex_backend newStats (UserId ?ui) (Store ex_handling)) = None
                then 200 else 500)"
    using statsHandler_status [OF w, of ex_request ex_backend ?ui] g(1)
      ex_CurrentOAuth(1) [of ex_request] h m(1) d8(1) by blast
  with d8(2) have c8: "Status (statsHandler ex_backend ex_request ex_handling) = Some 200"
    by simp
  have "Status (statsHandler ex_backend_store_down ex_get ex_handling) =
          Some (case connectToRedis ex_backend_store_down (Store ex_handling) of
                  Inl err \<Rightarrow> 500
                | Inr conn \<Rightarrow>
                    if isl (query ex_backend_store_down conn (UserId ?ui) (Store ex_handling)) then 500 else 200)"
    using statsHandler_status [OF w, of ex_get ex_backend_store_down ?ui] g(3)
      ex_CurrentOAuth(2) [of ex_get] h m(3) by blast
  then have c9: "Status (statsHandler ex_backend_store_down ex_get ex_handling) = Some 500"
    by (simp add: ex_backend_store_down_def)
  have "Status (statsHandler ex_backend ex_get ex_handling) =
          Some (case connectToRedis ex_backend (Store ex_handling) of
                  Inl err \<Rightarrow> 500
                | Inr conn \<Rightarrow>
                    if isl (query ex_backend conn (UserId ?ui) (Store ex_handling)) then 500 else 200)"
    using statsHandler_status [OF w, of ex_get ex_backend ?ui] g(3)
      ex_CurrentOAuth(1) [of ex_get] h m(3) by blast
  then have c10: "Status (statsHandler ex_backend ex_get ex_handling) = Some 200"
    by (simp add: ex_backend_def)
  have c11: "Status (statsHandler ex_backend ex_put ex_handling) = Some 405"
    using statsHandler_status [OF w, of ex_put ex_backend ?ui] g(4)
      ex_CurrentOAuth(1) [of ex_put] h m(4) by blast
  from c1 c2 c3 c4 c5 c6 c7 c8 c9 c10 c11 show ?thesis by blast
qed

subsection \<open>A failed authentication leaves the store alone\<close>

text \<open>
  Claim C9. For a well-formed request whose authentication fails (the caller is not
  authenticated, or the hash is not the computed one) the handler leaves the store as
  it was: its result is the failure response, with status 401 or 403, and it is the
  same whatever \<^verbatim>\<open>postToRedis\<close> would do, so the store write is never called.
\<close>

theorem failed_authentication_leaves_store:
  "getUserInfo r = Inr ui \<Longrightarrow>
   (\<exists>err. CurrentOAuth be r = Inl err) \<or>
   (\<exists>u. CurrentOAuth be r = Inr u \<and> Hash ui \<noteq> AuthProof (Email u) (UserId ui)) \<Longrightarrow>
     Store (statsHandler be r w) = Store w \<and>
     (\<exists>code err logged. (code = 401 \<or> code = 403) \<and>
        statsHandler be r w = fail be (w\<lparr>Logged := Logged w @ logged\<rparr>) code err) \<and>
     (Status w = None \<longrightarrow>
        Status (statsHandler be r w) = Some (if isl (CurrentOAuth be r) then 401 else 403)) \<and>
     (\<forall>f. statsHandler (be\<lparr>postToRedis := f\<rparr>) r w = statsHandler be r w)"
proof -
  assume g: "getUserInfo r = Inr ui"
  assume "(\<exists>err. CurrentOAuth be r = Inl err) \<or>
   (\<exists>u. CurrentOAuth be r = Inr u \<and> Hash ui \<noteq> AuthProof (Email u) (UserId ui))"
  then obtain code err logged where
    a: "authenticateAgainst be ui r = (code, Some err, logged)"
    and c: "code = (if isl (CurrentOAuth be r) then 401 else 403)"
    by (auto simp add: authenticateAgainst_cases)
  have h: "statsHandler be r w = fail be (w\<lparr>Logged := Logged w @ logged\<rparr>) code err"
    by (rule statsHandler_auth_fails [OF g a])
  have "\<And>f. statsHandler (be\<lparr>postToRedis := f\<rparr>) r w = fail be (w\<lparr>Logged := Logged w @ logged\<rparr>) code err"
    using statsHandler_auth_fails [OF g, of "be\<lparr>postToRedis := f\<rparr>" code err logged w for f] a
    by simp
  then have i: "\<forall>f. statsHandler (be\<lparr>postToRedis := f\<rparr>) r w = statsHandler be r w"
    by (simp add: h)
  have s: "Store (statsHandler be r w) = Store w"
    by (simp add: h Store_fail)
  have t: "Status w = None \<longrightarrow>
        Status (statsHandler be r w) = Some (if isl (CurrentOAuth be r) then 401 else 403)"
    by (simp add: h Status_fail c)
  have e: "\<exists>code err logged. (code = 401 \<or> code = 403) \<and>
        statsHandler be r w = fail be (w\<lparr>Logged := Logged w @ logged\<rparr>) code err"
    using h c by (intro exI [of _ code] exI [of _ err] exI [of _ logged]) simp
  from s e t i show ?thesis by blast
qed

theorem failed_authentication_leaves_store_witness:
  "getUserInfo ex_request = Inr \<lparr>UserId = 523523, Hash = ex_hash\<rparr> \<and>
   CurrentOAuth ex_backend_anonymous ex_request = Inl ''no OAuth token'' \<and>
   Store (statsHandler ex_backend_anonymous ex_request ex_handling) = Store ex_handling \<and>
   Status (statsHandler ex_backend_anonymous ex_request ex_handling) = Some 401 \<and>
   getUserInfo (ex_wrong_hash) = Inr \<lparr>UserId = 523523, Hash = ''c78c''\<rparr> \<and>
   ''c78c'' \<noteq> AuthProof ''example@example.com'' 523523 \<and>
   Store (statsHandler ex_backend ex_wrong_hash ex_handling) = Store ex_handling \<and>
   Status (statsHandler ex_backend ex_wrong_hash ex_handling) = Some 403 \<and>
   statsHandler (ex_backend\<lparr>postToRedis := (\<lambda>stats userId store. (None, Map.empty))\<rparr>)
       ex_wrong_hash ex_handling = statsHandler ex_backend ex_wrong_hash ex_handling"
proof -
  note A = ex_AuthProof
  note w = ex_handling_Status
  have n: "''c78c'' \<noteq> AuthProof ''example@example.com'' 523523"
    using A by (simp add: ex_hash_def)
  have p1: "(\<exists>err. CurrentOAuth ex_backend_anonymous ex_request = Inl err) \<or>
     (\<exists>u. CurrentOAuth ex_backend_anonymous ex_request = Inr u \<and>
          Hash \<lparr>UserId = 523523, Hash = ex_hash\<rparr> \<noteq> AuthProof (Email u) (UserId \<lparr>UserId = 523523, Hash = ex_hash\<rparr>))"
    by (simp add: ex_CurrentOAuth)
  have p2: "(\<exists>err. CurrentOAuth ex_backend ex_wrong_hash = Inl err) \<or>
     (\<exists>u. CurrentOAuth ex_backend ex_wrong_hash = Inr u \<and>
          Hash \<lparr>UserId = 523523, Hash = ''c78c''\<rparr> \<noteq> AuthProof (Email u) (UserId \<lparr>UserId = 523523, Hash = ''c78c''\<rparr>))"
    using n by (simp add: ex_CurrentOAuth)
  note T1 = failed_authentication_leaves_store [OF ex_getUserInfo p1, of ex_handling]
  note T2 = failed_authentication_leaves_store [OF ex_getUserInfo_wrong_hash p2, of ex_handling]
  from T1 have a1: "Store (statsHandler ex_backend_anonymous ex_request ex_handling) = Store ex_handling"
    by blast
  from T1 w have a2: "Status (statsHandler ex_backend_anonymous ex_request ex_handling) = Some 401"
    by (simp add: ex_CurrentOAuth)
  from T2 have b1: "Store (statsHandler ex_backend ex_wrong_hash ex_handling) = Store ex_handling"
    by blast
  from T2 w have b2: "Status (statsHandler ex_backend ex_wrong_hash ex_handling) = Some 403"
    by (simp add: ex_CurrentOAuth)
  from T2 have b3: "statsHandler (ex_backend\<lparr>postToRedis := (\<lambda>stats userId store. (None, Map.empty))\<rparr>)
       ex_wrong_hash ex_handling = statsHandler ex_backend ex_wrong_hash ex_handling"
    by blast
  from ex_getUserInfo ex_CurrentOAuth(3) [of ex_request] a1 a2 ex_getUserInfo_wrong_hash n b1 b2 b3
  show ?thesis by blast
qed

subsection \<open>Unsupported methods\<close>

text \<open>
  Claim C10. A request whose method is neither POST nor GET is parsed and authenticated
  like any other before its method is looked at: it gets 400 when malformed, 401 when
  the caller is not authenticated and 403 when the hash does not match. It gets 405
  only when it is well-formed and authenticated, and then nothing is written to the
  body, no header is set and the store is not touched.
\<close>

theorem unsupported_method_checked_last:
  "Method r \<noteq> ''POST'' \<Longrightarrow> Method r \<noteq> ''GET'' \<Longrightarrow> Status w = None \<Longrightarrow>
   (malformed r \<longrightarrow> Status (statsHandler be r w) = Some 400) \<and>
   (getUserInfo r = Inr ui \<longrightarrow>
      (\<forall>err. CurrentOAuth be r = Inl err \<longrightarrow> Status (statsHandler be r w) = Some 401) \<and>
      (\<forall>u. CurrentOAuth be r = Inr u \<longrightarrow>
         (Hash ui \<noteq> AuthProof (Email u) (UserId ui) \<longrightarrow>
            Status (statsHandler be r w) = Some 403) \<and>
         (Hash ui = AuthProof (Email u) (UserId ui) \<longrightarrow>
            Status (statsHandler be r w) = Some 405 \<and>
            Written_body (statsHandler be r w) = Written_body w \<and>
            Header (statsHandler be r w) = Header w \<and>
            Store (statsHandler be r w) = Store w))) \<and>
   (Status (statsHandler be r w) = Some 405 \<longrightarrow>
      (\<exists>ui u. getUserInfo r = Inr ui \<and> CurrentOAuth be r = Inr u \<and>
         Hash ui = AuthProof (Email u) (UserId ui)))"
proof (intro conjI impI allI)
  assume m: "Method r \<noteq> ''POST''" "Method r \<noteq> ''GET''" and w: "Status w = None"
  { assume "malformed r"
    with w show "Status (statsHandler be r w) = Some 400" by (rule Status_malformed) }
  { assume g: "getUserInfo r = Inr ui"
    { fix err assume e: "CurrentOAuth be r = Inl err"
      show "Status (statsHandler be r w) = Some 401"
        by (rule Status_auth_fails [OF w g auth_unauthenticated [OF e]]) }
    { fix u assume o: "CurrentOAuth be r = Inr u"
      { assume n: "Hash ui \<noteq> AuthProof (Email u) (UserId ui)"
        show "Status (statsHandler be r w) = Some 403"
          by (rule Status_auth_fails [OF w g auth_mismatch [OF o n]]) }
      { assume h: "Hash ui = AuthProof (Email u) (UserId ui)"
        note x = accepted_other [OF g auth_ok [OF o h] m]
        show "Status (statsHandler be r w) = Some 405"
          using w by (simp add: x WriteHeader_def)
        show "Written_body (statsHandler be r w) = Written_body w"
          by (simp add: x WriteHeader_def split: option.split)
        show "Header (statsHandler be r w) = Header w"
          by (simp add: x WriteHeader_def split: option.split)
        show "Store (statsHandler be r w) = Store w"
          by (simp add: x WriteHeader_def split: option.split) } } }
  { assume s: "Status (statsHandler be r w) = Some 405"
    show "\<exists>ui u. getUserInfo r = Inr ui \<and> CurrentOAuth be r = Inr u \<and>
         Hash ui = AuthProof (Email u) (UserId ui)"
    proof (cases "getUserInfo r")
      case (Inl e)
      then have "Status (statsHandler be r w) = Some 400"
        using w by (simp add: statsHandler_malformed Status_fail)
      with s show ?thesis by simp
    next
      case (Inr ui')
      show ?thesis
      proof (cases "CurrentOAuth be r")
        case (Inl err)
        have "Status (statsHandler be r w) = Some 401"
          by (rule Status_auth_fails [OF w Inr auth_unauthenticated [OF Inl]])
        with s show ?thesis by simp
      next
        case o: (Inr u)
        show ?thesis
        proof (cases "Hash ui' = AuthProof (Email u) (UserId ui')")
          case True
          with Inr o show ?thesis by blast
        next
          case False
          have "Status (statsHandler be r w) = Some 403"
            by (rule Status_auth_fails [OF w Inr auth_mismatch [OF o False]])
          with s show ?thesis by simp
        qed
      qed
    qed }
qed

theorem unsupported_method_checked_last_witness:
  "Method ex_put = ''PUT'' \<and>
   Status (statsHandler ex_backend (ex_bad_id\<lparr>Method := ''PUT''\<rparr>) ex_handling) = Some 400 \<and>
   Status (statsHandler ex_backend_anonymous ex_put ex_handling) = Some 401 \<and>
   Status (statsHandler ex_backend (ex_wrong_hash\<lparr>Method := ''PUT''\<rparr>) ex_handling) = Some 403 \<and>
   Status (statsHandler ex_backend ex_put ex_handling) = Some 405 \<and>
   Written_body (statsHandler ex_backend ex_put ex_handling) = [] \<and>
   Header (statsHandler ex_backend ex_put ex_handling) ''Content-Type'' = None \<and>
   getUserInfo ex_put = Inr \<lparr>UserId = 523523, Hash = ex_hash\<rparr> \<and>
   CurrentOAuth ex_backend ex_put = Inr \<lparr>Email = ''example@example.com''\<rparr>"
proof -
  note A = ex_AuthProof
  note w = ex_handling_Status
  let ?ui = "\<lparr>UserId = 523523, Hash = ex_hash\<rparr>"
  let ?vi = "\<lparr>UserId = 523523, Hash = ''c78c''\<rparr>"
  let ?u = "\<lparr>Email = ''example@example.com''\<rparr>"
  have h: "Hash ?ui = AuthProof (Email ?u) (UserId ?ui)" using A by simp
  have n: "Hash ?vi \<noteq> AuthProof (Email ?u) (UserId ?vi)" using A by (simp add: ex_hash_def)
  have m: "Method ex_put \<noteq> ''POST''" "Method ex_put \<noteq> ''GET''"
    "Method (ex_bad_id\<lparr>Method := ''PUT''\<rparr>) \<noteq> ''POST''" "Method (ex_bad_id\<lparr>Method := ''PUT''\<rparr>) \<noteq> ''GET''"
    "Method (ex_wrong_hash\<lparr>Method := ''PUT''\<rparr>) \<noteq> ''POST''" "Method (ex_wrong_hash\<lparr>Method := ''PUT''\<rparr>) \<noteq> ''GET''"
    by (simp_all add: ex_put_def)
  have g: "getUserInfo ex_put = Inr ?ui" "getUserInfo (ex_wrong_hash\<lparr>Method := ''PUT''\<rparr>) = Inr ?vi"
    by (simp_all add: ex_put_def ex_getUserInfo ex_getUserInfo_wrong_hash)
  have b: "malformed (ex_bad_id\<lparr>Method := ''PUT''\<rparr>)"
    using ex_malformed(1) by (simp add: malformed_def userIdString_def)
  have c1: "Status (statsHandler ex_backend (ex_bad_id\<lparr>Method := ''PUT''\<rparr>) ex_handling) = Some 400"
    using unsupported_method_checked_last [OF m(3) m(4) w, of ex_backend] b by blast
  have c2: "Status (statsHandler ex_backend_anonymous ex_put ex_handling) = Some 401"
    using unsupported_method_checked_last [OF m(1) m(2) w, of ex_backend_anonymous ?ui] g(1)
      ex_CurrentOAuth(3) [of ex_put] by blast
  have c3: "Status (statsHandler ex_backend (ex_wrong_hash\<lparr>Method := ''PUT''\<rparr>) ex_handling) = Some 403"
    using unsupported_method_checked_last [OF m(5) m(6) w, of ex_backend ?vi] g(2)
      ex_CurrentOAuth(1) [of "ex_wrong_hash\<lparr>Method := ''PUT''\<rparr>"] n by blast
  have c4: "Status (statsHandler ex_backend ex_put ex_handling) = Some 405 \<and>
            Written_body (statsHandler ex_backend ex_put ex_handling) = Written_body ex_handling \<and>
            Header (statsHandler ex_backend ex_put ex_handling) = Header ex_handling"
    using unsupported_method_checked_last [OF m(1) m(2) w, of ex_backend ?ui] g(1)
      ex_CurrentOAuth(1) [of ex_put] h by blast
  then have c5: "Written_body (statsHandler ex_backend ex_put ex_handling) = []"
    "Header (statsHandler ex_backend ex_put ex_handling) ''Content-Type'' = None"
    by (simp_all add: ex_handling_def new_handling_def)
  have p: "Method ex_put = ''PUT''" by (simp add: ex_put_def)
  from p c1 c2 c3 c4 c5 g(1) ex_CurrentOAuth(1) [of ex_put] show ?thesis by blast
qed

section \<open>Properties of the Submission Processor\<close>

lemma stored_counter_submit:
  "stored_counter (submit st u s) u name =
     (case Counter s name of
        None \<Rightarrow> stored_counter st u name
      | Some v \<Rightarrow> Some ((case stored_counter st u name of None \<Rightarrow> 0 | Some x \<Rightarrow> x) + v))"
  by (simp add: stored_counter_def submit_def merge_Stats_def merge_counter_def newStats_def Let_def
      split: option.split)

lemma submitted_values_Cons:
  "submitted_values name (s # subs) =
     (case Counter s name of None \<Rightarrow> submitted_values name subs
      | Some v \<Rightarrow> v # submitted_values name subs)"
  by (simp add: submitted_values_def List.map_filter_simps split: option.split)

lemma submitted_values_Nil: "submitted_values name [] = []"
  by (simp add: submitted_values_def List.map_filter_simps)

lemma stored_counter_submit_all:
  "stored_counter (submit_all st u subs) u name =
     (if submitted_values name subs = [] then stored_counter st u name
      else Some ((case stored_counter st u name of None \<Rightarrow> 0 | Some x \<Rightarrow> x)
                 + sum_list (submitted_values name subs)))"
proof (induction subs arbitrary: st)
  case Nil
  show ?case by (simp add: submitted_values_Nil)
next
  case (Cons s subs)
  show ?case
    by (simp add: Cons.IH stored_counter_submit submitted_values_Cons add.assoc split: option.split)
qed

lemma mset_submitted_values:
  "mset (submitted_values name subs) =
     image_mset (\<lambda>s. the (Counter s name)) (filter_mset (\<lambda>s. Counter s name \<noteq> None) (mset subs))"
  by (induction subs) (auto simp: submitted_values_Cons submitted_values_Nil split: option.split)

lemma submit_all_append:
  "submit_all st u (xs @ ys) = submit_all (submit_all st u xs) u ys"
  by (induction xs arbitrary: st) simp_all

lemma stored_counter_perm:
  assumes "mset subs' = mset subs"
  shows "stored_counter (submit_all st u subs') u name = stored_counter (submit_all st u subs) u name"
proof -
  have m: "mset (submitted_values name subs') = mset (submitted_values name subs)"
    by (simp add: mset_submitted_values assms)
  then have "sum_mset (mset (submitted_values name subs')) = sum_mset (mset (submitted_values name subs))"
    by simp
  then have s: "sum_list (submitted_values name subs') = sum_list (submitted_values name subs)"
    by (simp only: sum_mset_sum_list)
  from m have e: "(submitted_values name subs' = []) = (submitted_values name subs = [])"
    by (metis mset_zero_iff)
  show ?thesis
    by (simp only: stored_counter_submit_all s e)
qed

lemma stored_counter_merge_first:
  "stored_counter (submit st u (merge_Stats a b)) u name =
   stored_counter (submit (submit st u a) u b) u name"
  by (simp add: stored_counter_submit merge_Stats_def merge_counter_def add.assoc split: option.split)

text \<open>
  Claim C2. After a sequence of submissions for one user, the counter stored under a
  stat name is the value stored before (0 when there was none) plus the sum of all
  values submitted under that name, in \<^verbatim>\<open>int64\<close> arithmetic; a name no submission carries
  keeps what was stored. The result is the same for every order of the submissions,
  for every split of the sequence in two, and when two bundles are merged before they
  are submitted.
\<close>

theorem counter_is_sum_of_submissions:
  "stored_counter (submit_all store userId subs) userId name =
     (if submitted_values name subs = [] then stored_counter store userId name
      else Some ((case stored_counter store userId name of None \<Rightarrow> 0 | Some x \<Rightarrow> x)
                 + sum_list (submitted_values name subs))) \<and>
   (mset subs' = mset subs \<longrightarrow>
      stored_counter (submit_all store userId subs') userId name =
      stored_counter (submit_all store userId subs) userId name) \<and>
   submit_all store userId (xs @ ys) = submit_all (submit_all store userId xs) userId ys \<and>
   stored_counter (submit store userId (merge_Stats a b)) userId name =
     stored_counter (submit (submit store userId a) userId b) userId name"
  using stored_counter_submit_all stored_counter_perm submit_all_append stored_counter_merge_first
  by blast

theorem counter_is_sum_of_submissions_witness:
  "stored_counter (submit_all Map.empty 42 [ex_clicks3, ex_clicks2]) 42 ''clicks'' = Some 5 \<and>
   mset [ex_clicks2, ex_clicks3] = mset [ex_clicks3, ex_clicks2] \<and>
   stored_counter (submit_all Map.empty 42 [ex_clicks2, ex_clicks3]) 42 ''clicks'' = Some 5 \<and>
   stored_counter (submit Map.empty 42 (merge_Stats ex_clicks3 ex_clicks2)) 42 ''clicks'' = Some 5 \<and>
   stored_counter (submit_all Map.empty 42 [ex_clicks3, ex_clicks2]) 42 ''views'' = None"
proof -
  note T = counter_is_sum_of_submissions [of Map.empty 42 "[ex_clicks3, ex_clicks2]" _
             "[ex_clicks2, ex_clicks3]" "[ex_clicks3]" "[ex_clicks2]" ex_clicks3 ex_clicks2]
  have v: "submitted_values ''clicks'' [ex_clicks3, ex_clicks2] = [3, 2]"
    "submitted_values ''views'' [ex_clicks3, ex_clicks2] = []"
    by (simp_all add: submitted_values_def List.map_filter_simps ex_clicks3_def ex_clicks2_def newStats_def)
  have e: "stored_counter Map.empty 42 name = None" for name
    by (simp add: stored_counter_def)
  have p: "mset [ex_clicks2, ex_clicks3] = mset [ex_clicks3, ex_clicks2]"
    by (simp add: add_mset_commute)
  from T [of "''clicks''"] have a: "stored_counter (submit_all Map.empty 42 [ex_clicks3, ex_clicks2]) 42 ''clicks'' = Some 5"
    by (simp add: v e)
  from T [of "''clicks''"] p have b: "stored_counter (submit_all Map.empty 42 [ex_clicks2, ex_clicks3]) 42 ''clicks'' =
      stored_counter (submit_all Map.empty 42 [ex_clicks3, ex_clicks2]) 42 ''clicks''"
    by blast
  from T [of "''clicks''"] have c: "stored_counter (submit Map.empty 42 (merge_Stats ex_clicks3 ex_clicks2)) 42 ''clicks'' =
     stored_counter (submit (submit Map.empty 42 ex_clicks3) 42 ex_clicks2) 42 ''clicks''"
    by blast
  from T [of "''views''"] have d: "stored_counter (submit_all Map.empty 42 [ex_clicks3, ex_clicks2]) 42 ''views'' = None"
    by (simp add: v e)
  from a b c d p show ?thesis by simp
qed

end
